theory Spec2Isabelle
  imports Main "HOL-Library.Monad_Syntax"
begin

section \<open>Entity model\<close>

text \<open>
  The records follow the interfaces \<^verbatim>\<open>Decision\<close> and \<^verbatim>\<open>Resource\<close> of the TypeScript source.
  A JavaScript string is a list of code units; a \<^typ>\<open>char\<close> stands for one code unit
  (units below 256). A field declared optional (\<^verbatim>\<open>pros?: string[]\<close>) is an option value.
  Field names carry a prefix because both records have an \<^verbatim>\<open>id\<close>, a \<^verbatim>\<open>title\<close>, ...
\<close>

datatype status = Proposed | Accepted | Rejected | Deprecated | Superseded

record link =
  l_title :: string
  l_url :: string

record decision =
  d_id :: string
  d_title :: string
  d_rationale :: string
  d_context :: string
  d_timestamp :: int
  d_author :: string
  d_links :: "link list"
  d_pros :: "string list option"
  d_cons :: "string list option"
  d_tags :: "string list option"
  d_nodeId :: "string option"
  d_nodeName :: "string option"
  d_pageName :: "string option"
  d_status :: status

record resource =
  r_id :: string
  r_title :: string
  r_description :: string
  r_url :: string
  r_category :: string
  r_timestamp :: int
  r_author :: string
  r_tags :: "string list option"

section \<open>The host's JSON built-ins\<close>

text \<open>
  \<^verbatim>\<open>JSON.stringify\<close> and \<^verbatim>\<open>JSON.parse\<close> belong to the JavaScript host. They are modelled
  on the values the plug-in stores: null, booleans, integer numbers (every number in a
  record is a reading of \<^verbatim>\<open>Date.now()\<close>), strings, arrays and objects. A property whose
  value is \<^verbatim>\<open>undefined\<close> is left out by \<^verbatim>\<open>JSON.stringify\<close>, so an object is the list of its
  defined properties. \<^verbatim>\<open>number_toString\<close> is also what \<^verbatim>\<open>Date.now().toString()\<close> computes.
\<close>

datatype json = JNull | JBool bool | JNum int | JStr string
  | JArr "json list" | JObj "(string \<times> json) list"

definition digit_char :: "nat \<Rightarrow> char" where
  "digit_char n = char_of (48 + n)"

fun digits :: "nat \<Rightarrow> string" where
  "digits n = (if n < 10 then [digit_char n] else digits (n div 10) @ [digit_char (n mod 10)])"

declare digits.simps [simp del]

definition number_toString :: "int \<Rightarrow> string" where
  "number_toString i = (if i < 0 then CHR ''-'' # digits (nat (- i)) else digits (nat i))"

text \<open>
  \<^verbatim>\<open>JSON.stringify\<close> quotes a string and escapes the double quote, the backslash and the
  control characters below U+0020 (the short escapes of backspace, form feed, newline,
  carriage return and tab, else the four-digit escape in lower-case hexadecimal); it
  writes arrays and objects without white space.
\<close>

definition hex_digit :: "nat \<Rightarrow> char" where
  "hex_digit n = (if n < 10 then char_of (48 + n) else char_of (87 + n))"

definition quote_char :: "char \<Rightarrow> string" where
  "quote_char c =
    (if c = CHR 0x22 then [CHR 0x5C, CHR 0x22]
     else if c = CHR 0x5C then [CHR 0x5C, CHR 0x5C]
     else if c = CHR 0x08 then [CHR 0x5C, CHR ''b'']
     else if c = CHR 0x0C then [CHR 0x5C, CHR ''f'']
     else if c = CHR 0x0A then [CHR 0x5C, CHR ''n'']
     else if c = CHR 0x0D then [CHR 0x5C, CHR ''r'']
     else if c = CHR 0x09 then [CHR 0x5C, CHR ''t'']
     else if (of_char c :: nat) < 32
       then [CHR 0x5C, CHR ''u'', CHR ''0'', CHR ''0'',
             hex_digit (of_char c div 16), hex_digit (of_char c mod 16)]
     else [c])"

definition quote :: "string \<Rightarrow> string" where
  "quote s = CHR 0x22 # concat (map quote_char s) @ [CHR 0x22]"

fun stringify :: "json \<Rightarrow> string"
  and stringify_elems :: "json list \<Rightarrow> string"
  and stringify_members :: "(string \<times> json) list \<Rightarrow> string" where
  "stringify JNull = ''null''"
| "stringify (JBool b) = (if b then ''true'' else ''false'')"
| "stringify (JNum i) = number_toString i"
| "stringify (JStr s) = quote s"
| "stringify (JArr xs) = CHR ''['' # stringify_elems xs"
| "stringify (JObj kvs) = CHR ''{'' # stringify_members kvs"
| "stringify_elems [] = '']''"
| "stringify_elems [x] = stringify x @ '']''"
| "stringify_elems (x # y # ys) = stringify x @ CHR '','' # stringify_elems (y # ys)"
| "stringify_members [] = ''}''"
| "stringify_members [(k, v)] = quote k @ CHR '':'' # stringify v @ ''}''"
| "stringify_members ((k, v) # m # ms) =
     quote k @ CHR '':'' # stringify v @ CHR '','' # stringify_members (m # ms)"

text \<open>
  \<^verbatim>\<open>JSON.parse\<close>, by recursive descent; \<^verbatim>\<open>None\<close> is the \<^verbatim>\<open>SyntaxError\<close> it throws. A number
  is an optional minus sign and digits without a leading zero; a fraction or an exponent
  is not an integer and is rejected here. A four-digit escape above 00ff names a code
  unit outside \<^typ>\<open>char\<close> and is rejected as well. The recursion of the three mutually
  recursive parsers is bounded by a counter that starts above the length of the input;
  every call that descends consumes a character of it.
\<close>

definition is_digit :: "char \<Rightarrow> bool" where
  "is_digit c \<longleftrightarrow> 48 \<le> (of_char c :: nat) \<and> (of_char c :: nat) \<le> 57"

definition digit_val :: "char \<Rightarrow> nat" where
  "digit_val c = of_char c - 48"

definition parse_digits :: "string \<Rightarrow> nat" where
  "parse_digits ds = foldl (\<lambda>a c. 10 * a + digit_val c) 0 ds"

definition parse_nat :: "string \<Rightarrow> (nat \<times> string) option" where
  "parse_nat s =
    (let ds = takeWhile is_digit s; r = dropWhile is_digit s
     in if ds = [] then None
        else if hd ds = CHR ''0'' \<and> length ds > 1 then None
        else Some (parse_digits ds, r))"

definition parse_number :: "string \<Rightarrow> (json \<times> string) option" where
  "parse_number s =
    (case s of
       [] \<Rightarrow> None
     | c # r \<Rightarrow>
         if c = CHR ''-''
         then map_option (\<lambda>(n, r'). (JNum (- int n), r')) (parse_nat r)
         else map_option (\<lambda>(n, r'). (JNum (int n), r')) (parse_nat s))"

definition hex_val :: "char \<Rightarrow> nat option" where
  "hex_val c =
    (let n = (of_char c :: nat)
     in if 48 \<le> n \<and> n \<le> 57 then Some (n - 48)
        else if 97 \<le> n \<and> n \<le> 102 then Some (n - 87)
        else if 65 \<le> n \<and> n \<le> 70 then Some (n - 55)
        else None)"

definition unescape :: "char \<Rightarrow> char option" where
  "unescape e =
    (if e = CHR 0x22 then Some (CHR 0x22)
     else if e = CHR 0x5C then Some (CHR 0x5C)
     else if e = CHR ''/'' then Some (CHR ''/'')
     else if e = CHR ''b'' then Some (CHR 0x08)
     else if e = CHR ''f'' then Some (CHR 0x0C)
     else if e = CHR ''n'' then Some (CHR 0x0A)
     else if e = CHR ''r'' then Some (CHR 0x0D)
     else if e = CHR ''t'' then Some (CHR 0x09)
     else None)"

definition hex4 :: "char \<Rightarrow> char \<Rightarrow> char \<Rightarrow> char \<Rightarrow> char option" where
  "hex4 a b c d =
    (case (hex_val a, hex_val b, hex_val c, hex_val d) of
       (Some x, Some y, Some z, Some w) \<Rightarrow>
         (let n = ((x * 16 + y) * 16 + z) * 16 + w
          in if n < 256 then Some (char_of n) else None)
     | _ \<Rightarrow> None)"

definition cons_fst :: "'a \<Rightarrow> ('a list \<times> 'b) option \<Rightarrow> ('a list \<times> 'b) option" where
  "cons_fst x r = map_option (\<lambda>(xs, rest). (x # xs, rest)) r"

fun parse_chars :: "string \<Rightarrow> (string \<times> string) option" where
  "parse_chars [] = None"
| "parse_chars (c # s) =
    (if c = CHR 0x22 then Some ([], s)
     else if c = CHR 0x5C then
       (case s of
          [] \<Rightarrow> None
        | e # s1 \<Rightarrow>
            if e = CHR ''u'' then
              (case s1 of
                 a # b # c' # d # s2 \<Rightarrow>
                   (case hex4 a b c' d of
                      None \<Rightarrow> None
                    | Some ch \<Rightarrow> cons_fst ch (parse_chars s2))
               | _ \<Rightarrow> None)
            else
              (case unescape e of
                 None \<Rightarrow> None
               | Some ch \<Rightarrow> cons_fst ch (parse_chars s1)))
     else if (of_char c :: nat) < 32 then None
     else cons_fst c (parse_chars s))"

definition is_ws :: "char \<Rightarrow> bool" where
  "is_ws c \<longleftrightarrow> c = CHR 0x20 \<or> c = CHR 0x09 \<or> c = CHR 0x0A \<or> c = CHR 0x0D"

definition skip_ws :: "string \<Rightarrow> string" where
  "skip_ws s = dropWhile is_ws s"

definition expect :: "string \<Rightarrow> string \<Rightarrow> string option" where
  "expect lit s = (if take (length lit) s = lit then Some (drop (length lit) s) else None)"

fun parse_value :: "nat \<Rightarrow> string \<Rightarrow> (json \<times> string) option"
  and parse_elems :: "nat \<Rightarrow> string \<Rightarrow> (json list \<times> string) option"
  and parse_members :: "nat \<Rightarrow> string \<Rightarrow> ((string \<times> json) list \<times> string) option" where
  "parse_value 0 s = None"
| "parse_value (Suc n) s =
    (case skip_ws s of
       [] \<Rightarrow> None
     | c # r \<Rightarrow>
         if c = CHR 0x22 then map_option (\<lambda>(t, r'). (JStr t, r')) (parse_chars r)
         else if c = CHR ''['' then
           (case skip_ws r of
              [] \<Rightarrow> None
            | c' # r' \<Rightarrow>
                if c' = CHR '']'' then Some (JArr [], r')
                else map_option (\<lambda>(vs, r''). (JArr vs, r'')) (parse_elems n r))
         else if c = CHR ''{'' then
           (case skip_ws r of
              [] \<Rightarrow> None
            | c' # r' \<Rightarrow>
                if c' = CHR ''}'' then Some (JObj [], r')
                else map_option (\<lambda>(ms, r''). (JObj ms, r'')) (parse_members n r))
         else if c = CHR ''n'' then map_option (Pair JNull) (expect ''ull'' r)
         else if c = CHR ''t'' then map_option (Pair (JBool True)) (expect ''rue'' r)
         else if c = CHR ''f'' then map_option (Pair (JBool False)) (expect ''alse'' r)
         else parse_number (c # r))"
| "parse_elems 0 s = None"
| "parse_elems (Suc n) s =
    (case parse_value n s of
       None \<Rightarrow> None
     | Some (v, r) \<Rightarrow>
         (case skip_ws r of
            [] \<Rightarrow> None
          | c # r' \<Rightarrow>
              if c = CHR '','' then cons_fst v (parse_elems n r')
              else if c = CHR '']'' then Some ([v], r')
              else None))"
| "parse_members 0 s = None"
| "parse_members (Suc n) s =
    (case skip_ws s of
       [] \<Rightarrow> None
     | q # r0 \<Rightarrow>
         if q \<noteq> CHR 0x22 then None
         else
           (case parse_chars r0 of
              None \<Rightarrow> None
            | Some (k, r1) \<Rightarrow>
                (case skip_ws r1 of
                   [] \<Rightarrow> None
                 | col # r2 \<Rightarrow>
                     if col \<noteq> CHR '':'' then None
                     else
                       (case parse_value n r2 of
                          None \<Rightarrow> None
                        | Some (v, r3) \<Rightarrow>
                            (case skip_ws r3 of
                               [] \<Rightarrow> None
                             | c # r4 \<Rightarrow>
                                 if c = CHR '','' then cons_fst (k, v) (parse_members n r4)
                                 else if c = CHR ''}'' then Some ([(k, v)], r4)
                                 else None)))))"

definition JSON_parse :: "string \<Rightarrow> json option" where
  "JSON_parse s =
    (case parse_value (Suc (length s)) s of
       None \<Rightarrow> None
     | Some (v, r) \<Rightarrow> if skip_ws r = [] then Some v else None)"

section \<open>Records as JSON values\<close>

text \<open>
  \<^verbatim>\<open>JSON.stringify(decisions)\<close> writes each record as an object of its defined properties,
  in the order in which the \<^verbatim>\<open>create-decision\<close> handler lists them. An optional field
  without a value is \<^verbatim>\<open>None\<close> and is left out. The records have no separate \<^verbatim>\<open>null\<close>:
  a member that the UI sent as \<^verbatim>\<open>null\<close> is written as \<^verbatim>\<open>null\<close> by the code and read back
  as \<^verbatim>\<open>null\<close>, and is \<^verbatim>\<open>None\<close> here before and after.
\<close>

definition status_text :: "status \<Rightarrow> string" where
  "status_text s =
    (case s of Proposed \<Rightarrow> ''proposed'' | Accepted \<Rightarrow> ''accepted'' | Rejected \<Rightarrow> ''rejected''
     | Deprecated \<Rightarrow> ''deprecated'' | Superseded \<Rightarrow> ''superseded'')"

definition opt_member :: "string \<Rightarrow> ('a \<Rightarrow> json) \<Rightarrow> 'a option \<Rightarrow> (string \<times> json) list" where
  "opt_member k f x = (case x of None \<Rightarrow> [] | Some v \<Rightarrow> [(k, f v)])"

definition strings_to_json :: "string list \<Rightarrow> json" where
  "strings_to_json xs = JArr (map JStr xs)"

definition link_to_json :: "link \<Rightarrow> json" where
  "link_to_json l = JObj [(''title'', JStr (l_title l)), (''url'', JStr (l_url l))]"

definition decision_to_json :: "decision \<Rightarrow> json" where
  "decision_to_json d =
    JObj ([(''id'', JStr (d_id d)),
           (''title'', JStr (d_title d)),
           (''rationale'', JStr (d_rationale d)),
           (''context'', JStr (d_context d)),
           (''timestamp'', JNum (d_timestamp d)),
           (''author'', JStr (d_author d)),
           (''links'', JArr (map link_to_json (d_links d)))]
          @ opt_member ''pros'' strings_to_json (d_pros d)
          @ opt_member ''cons'' strings_to_json (d_cons d)
          @ opt_member ''tags'' strings_to_json (d_tags d)
          @ opt_member ''nodeId'' JStr (d_nodeId d)
          @ opt_member ''nodeName'' JStr (d_nodeName d)
          @ opt_member ''pageName'' JStr (d_pageName d)
          @ [(''status'', JStr (status_text (d_status d)))])"

definition resource_to_json :: "resource \<Rightarrow> json" where
  "resource_to_json r =
    JObj ([(''id'', JStr (r_id r)),
           (''title'', JStr (r_title r)),
           (''description'', JStr (r_description r)),
           (''url'', JStr (r_url r)),
           (''category'', JStr (r_category r)),
           (''timestamp'', JNum (r_timestamp r)),
           (''author'', JStr (r_author r))]
          @ opt_member ''tags'' strings_to_json (r_tags r))"

definition stringify_decisions :: "decision list \<Rightarrow> string" where
  "stringify_decisions ds = stringify (JArr (map decision_to_json ds))"

definition stringify_resources :: "resource list \<Rightarrow> string" where
  "stringify_resources rs = stringify (JArr (map resource_to_json rs))"

text \<open>
  The source assigns the result of \<^verbatim>\<open>JSON.parse\<close> to the typed variable unchecked. The
  collections of the model hold records of the declared types, so the parsed value is read
  back field by field: \<^verbatim>\<open>get_prop\<close> is a property read (of duplicate keys the last one wins, as in
  \<^verbatim>\<open>JSON.parse\<close>), an optional field may be absent or \<^verbatim>\<open>null\<close>. A blob that is well-formed JSON
  but not an array of such records has no counterpart among the typed collections; the
  model treats it like a blob that does not parse.
\<close>

definition get_prop :: "(string \<times> json) list \<Rightarrow> string \<Rightarrow> json option" where
  "get_prop ms k = map_of (rev ms) k"

fun str_of :: "json \<Rightarrow> string option" where
  "str_of (JStr s) = Some s"
| "str_of _ = None"

fun int_of :: "json \<Rightarrow> int option" where
  "int_of (JNum i) = Some i"
| "int_of _ = None"

fun all_some :: "'a option list \<Rightarrow> 'a list option" where
  "all_some [] = Some []"
| "all_some (x # xs) =
    (case x of None \<Rightarrow> None
     | Some y \<Rightarrow> (case all_some xs of None \<Rightarrow> None | Some ys \<Rightarrow> Some (y # ys)))"

fun strings_of_json :: "json \<Rightarrow> string list option" where
  "strings_of_json (JArr xs) = all_some (map str_of xs)"
| "strings_of_json _ = None"

fun opt_read :: "(json \<Rightarrow> 'a option) \<Rightarrow> json option \<Rightarrow> 'a option option" where
  "opt_read f None = Some None"
| "opt_read f (Some JNull) = Some None"
| "opt_read f (Some v) = map_option Some (f v)"

definition opt_prop :: "(string \<times> json) list \<Rightarrow> string \<Rightarrow> (json \<Rightarrow> 'a option) \<Rightarrow> 'a option option" where
  "opt_prop ms k f = opt_read f (get_prop ms k)"

definition status_of_text :: "string \<Rightarrow> status option" where
  "status_of_text s =
    (if s = ''proposed'' then Some Proposed
     else if s = ''accepted'' then Some Accepted
     else if s = ''rejected'' then Some Rejected
     else if s = ''deprecated'' then Some Deprecated
     else if s = ''superseded'' then Some Superseded
     else None)"

fun link_of_json :: "json \<Rightarrow> link option" where
  "link_of_json (JObj ms) =
    do {
      t \<leftarrow> Option.bind (get_prop ms ''title'') str_of;
      u \<leftarrow> Option.bind (get_prop ms ''url'') str_of;
      Some \<lparr>l_title = t, l_url = u\<rparr>
    }"
| "link_of_json _ = None"

fun links_of_json :: "json \<Rightarrow> link list option" where
  "links_of_json (JArr xs) = all_some (map link_of_json xs)"
| "links_of_json _ = None"

fun decision_of_json :: "json \<Rightarrow> decision option" where
  "decision_of_json (JObj ms) =
    do {
      i \<leftarrow> Option.bind (get_prop ms ''id'') str_of;
      t \<leftarrow> Option.bind (get_prop ms ''title'') str_of;
      ra \<leftarrow> Option.bind (get_prop ms ''rationale'') str_of;
      cx \<leftarrow> Option.bind (get_prop ms ''context'') str_of;
      ts \<leftarrow> Option.bind (get_prop ms ''timestamp'') int_of;
      au \<leftarrow> Option.bind (get_prop ms ''author'') str_of;
      ls \<leftarrow> Option.bind (get_prop ms ''links'') links_of_json;
      ps \<leftarrow> opt_prop ms ''pros'' strings_of_json;
      cs \<leftarrow> opt_prop ms ''cons'' strings_of_json;
      tg \<leftarrow> opt_prop ms ''tags'' strings_of_json;
      ni \<leftarrow> opt_prop ms ''nodeId'' str_of;
      nn \<leftarrow> opt_prop ms ''nodeName'' str_of;
      pn \<leftarrow> opt_prop ms ''pageName'' str_of;
      st \<leftarrow> Option.bind (Option.bind (get_prop ms ''status'') str_of) status_of_text;
      Some \<lparr>d_id = i, d_title = t, d_rationale = ra, d_context = cx, d_timestamp = ts,
            d_author = au, d_links = ls, d_pros = ps, d_cons = cs, d_tags = tg,
            d_nodeId = ni, d_nodeName = nn, d_pageName = pn, d_status = st\<rparr>
    }"
| "decision_of_json _ = None"

fun resource_of_json :: "json \<Rightarrow> resource option" where
  "resource_of_json (JObj ms) =
    do {
      i \<leftarrow> Option.bind (get_prop ms ''id'') str_of;
      t \<leftarrow> Option.bind (get_prop ms ''title'') str_of;
      de \<leftarrow> Option.bind (get_prop ms ''description'') str_of;
      u \<leftarrow> Option.bind (get_prop ms ''url'') str_of;
      ca \<leftarrow> Option.bind (get_prop ms ''category'') str_of;
      ts \<leftarrow> Option.bind (get_prop ms ''timestamp'') int_of;
      au \<leftarrow> Option.bind (get_prop ms ''author'') str_of;
      tg \<leftarrow> opt_prop ms ''tags'' strings_of_json;
      Some \<lparr>r_id = i, r_title = t, r_description = de, r_url = u, r_category = ca,
            r_timestamp = ts, r_author = au, r_tags = tg\<rparr>
    }"
| "resource_of_json _ = None"

fun decisions_of_json :: "json \<Rightarrow> decision list option" where
  "decisions_of_json (JArr xs) = all_some (map decision_of_json xs)"
| "decisions_of_json _ = None"

fun resources_of_json :: "json \<Rightarrow> resource list option" where
  "resources_of_json (JArr xs) = all_some (map resource_of_json xs)"
| "resources_of_json _ = None"

definition parse_decisions :: "string \<Rightarrow> decision list option" where
  "parse_decisions s = Option.bind (JSON_parse s) decisions_of_json"

definition parse_resources :: "string \<Rightarrow> resource list option" where
  "parse_resources s = Option.bind (JSON_parse s) resources_of_json"

section \<open>The host and the plug-in state\<close>

text \<open>
  \<^verbatim>\<open>figma\<close> is the host API. The model keeps what the code reads from it: the document
  (\<^verbatim>\<open>root.id\<close>, \<^verbatim>\<open>root.name\<close>, \<^verbatim>\<open>fileKey\<close>), the shared plug-in data of that document
  (the empty string where nothing is stored), the user, the selection on the current page,
  the node lookup, font loading and the locale's date format. The canvas itself stays with
  the host: what the code does to it is recorded as an effect.
\<close>

record user =
  u_name :: string
  u_id :: "string option"

record node_ref =
  n_id :: string
  n_name :: string

datatype node_result =
    LookupThrows
  | NoNode
  | NodeFound "string option" bool

record host =
  root_id :: string
  root_name :: string
  fileKey :: "string option"
  sharedPluginData :: "string \<times> string \<Rightarrow> string"
  currentUser :: "user option"
  selection :: "node_ref list"
  currentPage_name :: string
  getNodeById :: "string \<Rightarrow> node_result"
  loadFont :: "string \<Rightarrow> bool"
  toLocaleDateString :: "int \<Rightarrow> string"

text \<open>The events posted to the UI (\<^verbatim>\<open>figma.ui.postMessage\<close>), by their \<^verbatim>\<open>type\<close>.\<close>

datatype ui_event =
    LoadDecisions "decision list" "string option" "string option"
  | LoadResources "resource list"
  | DecisionCreated decision
  | DecisionUpdated decision
  | DecisionDeleted string
  | ResourceCreated resource
  | ResourceUpdated resource
  | ResourceDeleted string
  | SelectionInfo "string option" "string option" "string option"
  | UserInfo "string option" "string option"
  | DocumentId string string

text \<open>
  What a handler does to the outside, in program order. \<^verbatim>\<open>NotifyError\<close> is
  \<^verbatim>\<open>figma.notify(text, { error: true })\<close>. The three visual-log calls and the rebuild work
  on the canvas inside their own \<^verbatim>\<open>try\<close>/\<^verbatim>\<open>catch\<close>; they post nothing to the UI and touch
  neither the collections nor the stored blobs. \<^verbatim>\<open>SelectAndCenter\<close> is the callback that
  \<^verbatim>\<open>navigate-to-node\<close> defers with \<^verbatim>\<open>setTimeout\<close>. Console output is left out.
\<close>

datatype effect =
    PostMessage ui_event
  | Notify string
  | NotifyError string
  | AddDecisionToVisualLog decision
  | UpdateDecisionInVisualLog decision
  | DeleteDecisionFromVisualLog string
  | RebuildVisualLog
  | SetCurrentPage string
  | SelectAndCenter string string
  | ClosePlugin

text \<open>
  The module-level variables \<^verbatim>\<open>decisions\<close>, \<^verbatim>\<open>resources\<close> and \<^verbatim>\<open>currentDocumentId\<close>,
  together with the host and the effects so far.
\<close>

record world =
  decisions :: "decision list"
  resources :: "resource list"
  currentDocumentId :: string
  figma :: host
  trace :: "effect list"

text \<open>
  What the host decides while one event is handled: the successive readings of
  \<^verbatim>\<open>Date.now()\<close> and whether \<^verbatim>\<open>setSharedPluginData\<close> returns or throws.
\<close>

record env =
  now1 :: int
  now2 :: int
  write_ok :: bool

text \<open>The payloads of \<^verbatim>\<open>create-decision\<close> and \<^verbatim>\<open>create-resource\<close>.\<close>

record decision_draft =
  c_title :: string
  c_rationale :: string
  c_context :: string
  c_links :: "link list option"
  c_pros :: "string list option"
  c_cons :: "string list option"
  c_tags :: "string list option"
  c_nodeId :: "string option"
  c_nodeName :: "string option"
  c_pageName :: "string option"
  c_status :: "status option"

record resource_draft =
  rc_title :: string
  rc_description :: string
  rc_url :: string
  rc_category :: string
  rc_tags :: "string list option"

datatype message =
    CreateResource resource_draft
  | CreateDecision decision_draft
  | EditDecision decision
  | DeleteDecision string
  | EditResource resource
  | DeleteResource string
  | GetUserInfo
  | GetDocumentId
  | NavigateToNode "string option" "string option"
  | Close
  | OtherMessage string

section \<open>The plug-in\<close>

definition PLUGIN_NAMESPACE :: string where
  "PLUGIN_NAMESPACE = ''bhrDesignDecisionLogger''"

definition DECISIONS_KEY :: string where
  "DECISIONS_KEY = ''designDecisions''"

definition RESOURCES_KEY :: string where
  "RESOURCES_KEY = ''designResources''"

definition getSharedPluginData :: "host \<Rightarrow> string \<Rightarrow> string \<Rightarrow> string" where
  "getSharedPluginData h ns k = sharedPluginData h (ns, k)"

definition setSharedPluginData :: "host \<Rightarrow> string \<Rightarrow> string \<Rightarrow> string \<Rightarrow> host" where
  "setSharedPluginData h ns k v = h\<lparr>sharedPluginData := (sharedPluginData h)((ns, k) := v)\<rparr>"

definition emit :: "effect list \<Rightarrow> world \<Rightarrow> world" where
  "emit es w = w\<lparr>trace := trace w @ es\<rparr>"

text \<open>\<^verbatim>\<open>figma.fileKey || figma.root.id\<close>: an absent or empty file key is falsy.\<close>

definition documentIdentity :: "host \<Rightarrow> string" where
  "documentIdentity h =
    (case fileKey h of
       None \<Rightarrow> root_id h
     | Some k \<Rightarrow> if k = [] then root_id h else k)"

text \<open>\<^verbatim>\<open>figma.root.name || 'Untitled'\<close>\<close>

definition fileName :: "host \<Rightarrow> string" where
  "fileName h = (if root_name h = [] then ''Untitled'' else root_name h)"

text \<open>\<^verbatim>\<open>figma.currentUser?.name || 'Unknown'\<close>\<close>

definition authorName :: "host \<Rightarrow> string" where
  "authorName h =
    (case currentUser h of
       None \<Rightarrow> ''Unknown''
     | Some u \<Rightarrow> if u_name u = [] then ''Unknown'' else u_name u)"

definition sendSelectionInfo :: "world \<Rightarrow> world" where
  "sendSelectionInfo w =
    (let sel = selection (figma w) in
     if length sel = 1 then
       emit [PostMessage (SelectionInfo (Some (n_id (hd sel))) (Some (n_name (hd sel)))
                            (Some (currentPage_name (figma w))))] w
     else if length sel > 1 then
       emit [PostMessage (SelectionInfo None
                            (Some (''Multiple items ('' @ number_toString (int (length sel)) @ '')''))
                            (Some (currentPage_name (figma w))))] w
     else
       emit [PostMessage (SelectionInfo None None None)] w)"

text \<open>
  The two loading steps inside the \<^verbatim>\<open>try\<close> of \<^verbatim>\<open>initializePlugin\<close>; \<^verbatim>\<open>None\<close> is the
  exception of \<^verbatim>\<open>JSON.parse\<close>. An empty blob is falsy and gives the empty collection.
\<close>

definition loadDecisions :: "world \<Rightarrow> world option" where
  "loadDecisions w =
    (let savedDecisions = getSharedPluginData (figma w) PLUGIN_NAMESPACE DECISIONS_KEY in
     if savedDecisions \<noteq> [] then
       (case parse_decisions savedDecisions of
          None \<Rightarrow> None
        | Some ds \<Rightarrow>
            Some (emit [PostMessage (LoadDecisions ds (Some (currentDocumentId w))
                                       (Some (fileName (figma w))))]
                    (w\<lparr>decisions := ds\<rparr>)))
     else
       Some (emit [PostMessage (LoadDecisions [] (Some (currentDocumentId w))
                                  (Some (fileName (figma w))))]
               (w\<lparr>decisions := []\<rparr>)))"

definition loadResources :: "world \<Rightarrow> world option" where
  "loadResources w =
    (let savedResources = getSharedPluginData (figma w) PLUGIN_NAMESPACE RESOURCES_KEY in
     if savedResources \<noteq> [] then
       (case parse_resources savedResources of
          None \<Rightarrow> None
        | Some rs \<Rightarrow> Some (emit [PostMessage (LoadResources rs)] (w\<lparr>resources := rs\<rparr>)))
     else
       Some (emit [PostMessage (LoadResources [])] (w\<lparr>resources := []\<rparr>)))"

text \<open>The \<^verbatim>\<open>catch\<close> of \<^verbatim>\<open>initializePlugin\<close>: both arrays are reset, whichever blob failed.\<close>

definition loadFailed :: "world \<Rightarrow> world" where
  "loadFailed w =
    emit [Notify ''Error loading saved data'',
          PostMessage (LoadDecisions [] None None),
          PostMessage (LoadResources [])]
      (w\<lparr>decisions := [], resources := []\<rparr>)"

text \<open>
  \<^verbatim>\<open>initializePlugin\<close>, with its effects in the order of the calls. When the collection is
  not empty the code suspends at \<^verbatim>\<open>await rebuildVisualLog()\<close>: the canvas work of the
  rebuild and the selection info after it then happen once the caller has gone on, later
  than their place in the trace. The collections and the load events are complete before
  the first suspension.
\<close>

definition initializePlugin :: "world \<Rightarrow> world" where
  "initializePlugin w =
    (let w1 = w\<lparr>currentDocumentId := documentIdentity (figma w)\<rparr>;
         w2 = (case loadDecisions w1 of
                 None \<Rightarrow> loadFailed w1
               | Some wa \<Rightarrow>
                   (case loadResources wa of
                      None \<Rightarrow> loadFailed wa
                    | Some wb \<Rightarrow> wb));
         w3 = (if length (decisions w2) > 0 then emit [RebuildVisualLog] w2 else w2)
     in sendSelectionInfo w3)"

definition saveDecisionsToDocument :: "env \<Rightarrow> world \<Rightarrow> world \<times> bool" where
  "saveDecisionsToDocument e w =
    (if write_ok e then
       (w\<lparr>figma := setSharedPluginData (figma w) PLUGIN_NAMESPACE DECISIONS_KEY
                       (stringify_decisions (decisions w))\<rparr>, True)
     else (w, False))"

definition saveResourcesToDocument :: "env \<Rightarrow> world \<Rightarrow> world \<times> bool" where
  "saveResourcesToDocument e w =
    (if write_ok e then
       (w\<lparr>figma := setSharedPluginData (figma w) PLUGIN_NAMESPACE RESOURCES_KEY
                       (stringify_resources (resources w))\<rparr>, True)
     else (w, False))"

text \<open>
  \<^verbatim>\<open>if (currentDocumentId !== figma.fileKey || figma.root.id)\<close>: the comparison binds tighter
  than \<^verbatim>\<open>||\<close>, so the condition is the comparison with the file key, or else the
  truthiness of \<^verbatim>\<open>figma.root.id\<close>.
\<close>

definition checkForDocumentChange :: "world \<Rightarrow> world" where
  "checkForDocumentChange w =
    (if Some (currentDocumentId w) \<noteq> fileKey (figma w) \<or> root_id (figma w) \<noteq> []
     then initializePlugin w
     else w)"

text \<open>
  The same function in the earlier revision of the source kept in the repository
  (\<^verbatim>\<open>if (currentDocumentId !== (figma.fileKey || figma.root.id))\<close>).
\<close>

definition checkForDocumentChange_parenthesised :: "world \<Rightarrow> world" where
  "checkForDocumentChange_parenthesised w =
    (if currentDocumentId w \<noteq> documentIdentity (figma w)
     then initializePlugin w
     else w)"

text \<open>\<^verbatim>\<open>Array.prototype.findIndex\<close>; \<^verbatim>\<open>None\<close> is the result \<^verbatim>\<open>-1\<close>.\<close>

fun findIndex :: "('a \<Rightarrow> bool) \<Rightarrow> 'a list \<Rightarrow> nat option" where
  "findIndex P [] = None"
| "findIndex P (x # xs) = (if P x then Some 0 else map_option Suc (findIndex P xs))"

definition or_empty :: "'a list option \<Rightarrow> 'a list" where
  "or_empty x = (case x of None \<Rightarrow> [] | Some xs \<Rightarrow> xs)"

definition newDecision :: "host \<Rightarrow> env \<Rightarrow> decision_draft \<Rightarrow> decision" where
  "newDecision h e c =
    \<lparr>d_id = number_toString (now1 e),
     d_title = c_title c,
     d_rationale = c_rationale c,
     d_context = c_context c,
     d_timestamp = now2 e,
     d_author = authorName h,
     d_links = or_empty (c_links c),
     d_pros = Some (or_empty (c_pros c)),
     d_cons = Some (or_empty (c_cons c)),
     d_tags = Some (or_empty (c_tags c)),
     d_nodeId = c_nodeId c,
     d_nodeName = c_nodeName c,
     d_pageName = c_pageName c,
     d_status = (case c_status c of None \<Rightarrow> Proposed | Some s \<Rightarrow> s)\<rparr>"

definition newResource :: "host \<Rightarrow> env \<Rightarrow> resource_draft \<Rightarrow> resource" where
  "newResource h e c =
    \<lparr>r_id = number_toString (now1 e),
     r_title = rc_title c,
     r_description = rc_description c,
     r_url = rc_url c,
     r_category = rc_category c,
     r_timestamp = now2 e,
     r_author = authorName h,
     r_tags = Some (or_empty (rc_tags c))\<rparr>"

text \<open>
  The object spreads of the edit handlers:
  \<^verbatim>\<open>{ ...msg.decision, timestamp: Date.now(), author: decisions[index].author }\<close>.
\<close>

definition editedDecision :: "env \<Rightarrow> decision \<Rightarrow> decision \<Rightarrow> decision" where
  "editedDecision e p stored = p\<lparr>d_timestamp := now1 e, d_author := d_author stored\<rparr>"

definition editedResource :: "env \<Rightarrow> resource \<Rightarrow> resource \<Rightarrow> resource" where
  "editedResource e p stored = p\<lparr>r_timestamp := now1 e, r_author := r_author stored\<rparr>"

text \<open>The \<^verbatim>\<open>switch (msg.type)\<close> of \<^verbatim>\<open>figma.ui.onmessage\<close>, one equation for each \<^verbatim>\<open>case\<close>.\<close>

fun dispatch :: "env \<Rightarrow> message \<Rightarrow> world \<Rightarrow> world" where
  "dispatch e (CreateResource c) w =
    (let r = newResource (figma w) e c;
         (w1, saved) = saveResourcesToDocument e (w\<lparr>resources := resources w @ [r]\<rparr>)
     in if saved
        then emit [PostMessage (ResourceCreated r), Notify ''Resource added successfully''] w1
        else emit [Notify ''Error saving resource''] w1)"
| "dispatch e (CreateDecision c) w =
    (let d = newDecision (figma w) e c;
         (w1, saved) = saveDecisionsToDocument e (w\<lparr>decisions := decisions w @ [d]\<rparr>)
     in if saved
        then emit [PostMessage (DecisionCreated d), Notify ''Decision logged successfully'',
                   AddDecisionToVisualLog d] w1
        else emit [Notify ''Error saving decision''] w1)"
| "dispatch e (EditDecision p) w =
    (case findIndex (\<lambda>d. d_id d = d_id p) (decisions w) of
       None \<Rightarrow> w
     | Some index \<Rightarrow>
         (let d = editedDecision e p (decisions w ! index);
              (w1, saved) = saveDecisionsToDocument e (w\<lparr>decisions := (decisions w)[index := d]\<rparr>)
          in if saved
             then emit [PostMessage (DecisionUpdated d), Notify ''Decision updated successfully'',
                        UpdateDecisionInVisualLog d] w1
             else emit [Notify ''Error updating decision''] w1))"
| "dispatch e (DeleteDecision i) w =
    (let decisionTitle = (case find (\<lambda>d. d_id d = i) (decisions w) of
                            None \<Rightarrow> [] | Some d \<Rightarrow> d_title d);
         (w1, saved) = saveDecisionsToDocument e
                         (w\<lparr>decisions := filter (\<lambda>d. d_id d \<noteq> i) (decisions w)\<rparr>)
     in if saved
        then emit ([PostMessage (DecisionDeleted i), Notify ''Decision deleted successfully'']
                   @ (if decisionTitle \<noteq> [] then [DeleteDecisionFromVisualLog decisionTitle] else []))
               w1
        else emit [Notify ''Error deleting decision''] w1)"
| "dispatch e (EditResource p) w =
    (case findIndex (\<lambda>r. r_id r = r_id p) (resources w) of
       None \<Rightarrow> w
     | Some index \<Rightarrow>
         (let r = editedResource e p (resources w ! index);
              (w1, saved) = saveResourcesToDocument e (w\<lparr>resources := (resources w)[index := r]\<rparr>)
          in if saved
             then emit [PostMessage (ResourceUpdated r), Notify ''Resource updated successfully''] w1
             else emit [Notify ''Error updating resource''] w1))"
| "dispatch e (DeleteResource i) w =
    (let (w1, saved) = saveResourcesToDocument e
                         (w\<lparr>resources := filter (\<lambda>r. r_id r \<noteq> i) (resources w)\<rparr>)
     in if saved
        then emit [PostMessage (ResourceDeleted i), Notify ''Resource deleted successfully''] w1
        else emit [Notify ''Error deleting resource''] w1)"
| "dispatch e GetUserInfo w =
    emit [PostMessage (UserInfo (map_option u_name (currentUser (figma w)))
                                (Option.bind (currentUser (figma w)) u_id))] w"
| "dispatch e GetDocumentId w =
    emit [PostMessage (DocumentId (documentIdentity (figma w)) (fileName (figma w)))] w"
| "dispatch e (NavigateToNode nodeId pageName) w =
    (case nodeId of
       None \<Rightarrow> w
     | Some i \<Rightarrow>
         if i = [] then w
         else
           (case getNodeById (figma w) i of
              LookupThrows \<Rightarrow> emit [NotifyError ''Could not find the linked element''] w
            | NoNode \<Rightarrow> emit [NotifyError ''Could not find the linked element''] w
            | NodeFound None scene \<Rightarrow>
                emit [NotifyError ''Could not find the page containing this element''] w
            | NodeFound (Some targetPage) scene \<Rightarrow>
                emit (SetCurrentPage targetPage
                      # (if scene then [SelectAndCenter i targetPage] else [])) w))"
| "dispatch e Close w = emit [ClosePlugin] w"
| "dispatch e (OtherMessage t) w = w"

text \<open>
  The three listeners. \<^verbatim>\<open>initializePlugin()\<close> is called without \<^verbatim>\<open>await\<close>: it assigns
  the collections before its first suspension point, so they are reloaded when the
  \<^verbatim>\<open>switch\<close> starts.
\<close>

definition onmessage :: "env \<Rightarrow> message \<Rightarrow> world \<Rightarrow> world" where
  "onmessage e msg w = dispatch e msg (checkForDocumentChange w)"

definition on_ui_message :: "world \<Rightarrow> world" where
  "on_ui_message w = checkForDocumentChange w"

definition on_selectionchange :: "world \<Rightarrow> world" where
  "on_selectionchange w = sendSelectionInfo (checkForDocumentChange w)"

text \<open>Commands handled one after the other, each with what the host decides for it.\<close>

fun run :: "(env \<times> message) list \<Rightarrow> world \<Rightarrow> world" where
  "run [] w = w"
| "run ((e, msg) # rest) w = run rest (onmessage e msg w)"

section \<open>The visual log row\<close>

text \<open>
  \<^verbatim>\<open>createDecisionRow\<close>: a colour is the triple of its channels in hundredths
  (\<^verbatim>\<open>{r: 0.05, g: 0.28, b: 0.63}\<close> is \<open>(5, 28, 63)\<close>); the names are those of the comments
  beside \<^verbatim>\<open>statusColors\<close>. Only the row's name and its cells are kept, not the layout
  constants of the frame. Loading a font may fail, and then no row is made.
\<close>

type_synonym rgb = "nat \<times> nat \<times> nat"

definition Blue :: rgb where "Blue = (5, 28, 63)"
definition Green :: rgb where "Green = (11, 37, 13)"
definition Red :: rgb where "Red = (72, 11, 11)"
definition Brown :: rgb where "Brown = (24, 15, 14)"
definition Purple :: rgb where "Purple = (29, 8, 55)"
definition DefaultText :: rgb where "DefaultText = (20, 20, 20)"

datatype font_weight = Regular | Medium

record cell =
  cell_text :: string
  cell_width :: nat
  cell_weight :: font_weight
  cell_color :: rgb

record row =
  row_name :: string
  row_cells :: "cell list"

definition statusColors :: "status \<Rightarrow> rgb" where
  "statusColors s =
    (case s of Proposed \<Rightarrow> Blue | Accepted \<Rightarrow> Green | Rejected \<Rightarrow> Red
     | Deprecated \<Rightarrow> Brown | Superseded \<Rightarrow> Purple)"

text \<open>\<^verbatim>\<open>toUpperCase\<close> on the letters a to z, which is all a status text contains.\<close>

definition upper_char :: "char \<Rightarrow> char" where
  "upper_char c =
    (if 97 \<le> (of_char c :: nat) \<and> (of_char c :: nat) \<le> 122
     then char_of ((of_char c :: nat) - 32) else c)"

definition toUpperCase :: "string \<Rightarrow> string" where
  "toUpperCase s = map upper_char s"

text \<open>\<^verbatim>\<open>s.substring(0, 100) + (s.length > 100 ? '...' : '')\<close>\<close>

definition truncated :: "string \<Rightarrow> string" where
  "truncated s = take 100 s @ (if length s > 100 then ''...'' else [])"

fun join :: "string \<Rightarrow> string list \<Rightarrow> string" where
  "join sep [] = []"
| "join sep [x] = x"
| "join sep (x # y # ys) = x @ sep @ join sep (y # ys)"

definition createDecisionRow :: "host \<Rightarrow> decision \<Rightarrow> row option" where
  "createDecisionRow h d =
    (if \<not> loadFont h ''Regular'' then None
     else if \<not> loadFont h ''Medium'' then None
     else
       Some \<lparr>row_name = ''Decision: '' @ d_title d,
             row_cells =
               [\<lparr>cell_text = d_title d, cell_width = 200, cell_weight = Medium,
                 cell_color = DefaultText\<rparr>,
                \<lparr>cell_text = toUpperCase (status_text (d_status d)), cell_width = 100,
                 cell_weight = Medium, cell_color = statusColors (d_status d)\<rparr>,
                \<lparr>cell_text = truncated (d_context d), cell_width = 250, cell_weight = Regular,
                 cell_color = DefaultText\<rparr>,
                \<lparr>cell_text = truncated (d_rationale d), cell_width = 250, cell_weight = Regular,
                 cell_color = DefaultText\<rparr>,
                \<lparr>cell_text = d_author d, cell_width = 120, cell_weight = Regular,
                 cell_color = DefaultText\<rparr>,
                \<lparr>cell_text = toLocaleDateString h (d_timestamp d), cell_width = 120,
                 cell_weight = Regular, cell_color = DefaultText\<rparr>,
                \<lparr>cell_text = (case d_tags d of None \<Rightarrow> [] | Some ts \<Rightarrow> join '', '' ts),
                 cell_width = 160, cell_weight = Regular, cell_color = DefaultText\<rparr>]\<rparr>)"

section \<open>Notions used by the properties\<close>

text \<open>
  What the stored blobs decode to, as \<^verbatim>\<open>initializePlugin\<close> reads them; \<^verbatim>\<open>None\<close> where
  \<^verbatim>\<open>JSON.parse\<close> would throw.
\<close>

definition storedDecisions :: "host \<Rightarrow> decision list option" where
  "storedDecisions h =
    (let s = getSharedPluginData h PLUGIN_NAMESPACE DECISIONS_KEY
     in if s = [] then Some [] else parse_decisions s)"

definition storedResources :: "host \<Rightarrow> resource list option" where
  "storedResources h =
    (let s = getSharedPluginData h PLUGIN_NAMESPACE RESOURCES_KEY
     in if s = [] then Some [] else parse_resources s)"

definition in_sync :: "world \<Rightarrow> bool" where
  "in_sync w \<longleftrightarrow>
     storedDecisions (figma w) = Some (decisions w) \<and>
     storedResources (figma w) = Some (resources w)"

text \<open>
  A host is loadable when both stored blobs are empty or decode to lists of records: these
  are the documents on which the typed collections of the model are what the code holds
  after loading.
\<close>

definition loadable :: "host \<Rightarrow> bool" where
  "loadable h \<longleftrightarrow> storedDecisions h \<noteq> None \<and> storedResources h \<noteq> None"

text \<open>
  Whether the \<^verbatim>\<open>switch\<close> calls a save function for a message, given the collections it
  starts with; and a command sequence all of whose save calls succeed.
\<close>

fun attempts_save :: "message \<Rightarrow> world \<Rightarrow> bool" where
  "attempts_save (CreateResource c) w = True"
| "attempts_save (CreateDecision c) w = True"
| "attempts_save (EditDecision p) w = (findIndex (\<lambda>d. d_id d = d_id p) (decisions w) \<noteq> None)"
| "attempts_save (DeleteDecision i) w = True"
| "attempts_save (EditResource p) w = (findIndex (\<lambda>r. r_id r = r_id p) (resources w) \<noteq> None)"
| "attempts_save (DeleteResource i) w = True"
| "attempts_save _ w = False"

fun saves_succeed :: "(env \<times> message) list \<Rightarrow> world \<Rightarrow> bool" where
  "saves_succeed [] w = True"
| "saves_succeed ((e, msg) # rest) w =
    ((attempts_save msg (checkForDocumentChange w) \<longrightarrow> write_ok e) \<and>
     saves_succeed rest (onmessage e msg w))"

text \<open>
  The terminal events of a command: the event that carries the created, updated or deleted
  record, and the notification that the command's save failed.
\<close>

definition commandErrors :: "string list" where
  "commandErrors =
    [''Error saving resource'', ''Error saving decision'', ''Error updating decision'',
     ''Error deleting decision'', ''Error updating resource'', ''Error deleting resource'']"

fun is_terminal :: "effect \<Rightarrow> bool" where
  "is_terminal (PostMessage (DecisionCreated d)) = True"
| "is_terminal (PostMessage (DecisionUpdated d)) = True"
| "is_terminal (PostMessage (DecisionDeleted i)) = True"
| "is_terminal (PostMessage (ResourceCreated r)) = True"
| "is_terminal (PostMessage (ResourceUpdated r)) = True"
| "is_terminal (PostMessage (ResourceDeleted i)) = True"
| "is_terminal (Notify s) = (s \<in> set commandErrors)"
| "is_terminal _ = False"

definition terminalEvents :: "world \<Rightarrow> nat" where
  "terminalEvents w = length (filter is_terminal (trace w))"

text \<open>The terminal events emitted so far, in order.\<close>

definition terminalTrace :: "world \<Rightarrow> effect list" where
  "terminalTrace w = filter is_terminal (trace w)"

section \<open>Example values\<close>

text \<open>
  A document with nothing stored, the plug-in bound to it, and the decision of the
  scenario "Use dark mode default".
\<close>

definition example_host :: host where
  "example_host =
    \<lparr>root_id = ''0:0'', root_name = ''Settings'', fileKey = Some ''abc'',
     sharedPluginData = (\<lambda>_. []),
     currentUser = Some \<lparr>u_name = ''Ada'', u_id = Some ''7''\<rparr>,
     selection = [], currentPage_name = ''Page 1'',
     getNodeById = (\<lambda>_. NoNode), loadFont = (\<lambda>_. True),
     toLocaleDateString = (\<lambda>_. ''11/14/2023'')\<rparr>"

definition example_world :: world where
  "example_world =
    \<lparr>decisions = [], resources = [], currentDocumentId = ''abc'',
     figma = example_host, trace = []\<rparr>"

definition example_env :: env where
  "example_env = \<lparr>now1 = 1700000000000, now2 = 1700000000000, write_ok = True\<rparr>"

definition example_draft :: decision_draft where
  "example_draft =
    \<lparr>c_title = ''Use dark mode default'', c_rationale = ''Accessibility'',
     c_context = ''Settings redesign'', c_links = None, c_pros = None, c_cons = None,
     c_tags = None, c_nodeId = None, c_nodeName = None, c_pageName = None, c_status = None\<rparr>"

definition example_decision :: decision where
  "example_decision =
    \<lparr>d_id = ''1'', d_title = ''Use dark mode default'', d_rationale = ''Accessibility'',
     d_context = ''Settings redesign'', d_timestamp = 1, d_author = ''Ada'', d_links = [],
     d_pros = Some [], d_cons = Some [], d_tags = Some [], d_nodeId = None,
     d_nodeName = None, d_pageName = None, d_status = Proposed\<rparr>"

definition example_resource :: resource where
  "example_resource =
    \<lparr>r_id = ''1'', r_title = ''Contrast guide'', r_description = ''WCAG'', r_url = ''https://w3.org'',
     r_category = ''a11y'', r_timestamp = 1, r_author = ''Ada'', r_tags = Some []\<rparr>"

definition example_commands :: "(env \<times> message) list" where
  "example_commands =
    [(example_env, CreateDecision example_draft),
     (example_env, EditDecision (example_decision\<lparr>d_id := ''1700000000000'', d_status := Accepted\<rparr>)),
     (example_env, DeleteDecision ''1''),
     (example_env, CreateResource \<lparr>rc_title = ''Contrast guide'', rc_description = ''WCAG'',
         rc_url = ''https://w3.org'', rc_category = ''a11y'', rc_tags = None\<rparr>)]"

text \<open>The same readings while the host refuses writes.\<close>

definition failing_env :: env where
  "failing_env = example_env\<lparr>write_ok := False\<rparr>"

text \<open>A context of 101 characters, one more than a row shows in full.\<close>

definition long_text :: string where
  "long_text = replicate 101 (CHR ''x'')"

text \<open>The example decision in memory and, after a successful save, in the stored blob.\<close>

definition saved_world :: world where
  "saved_world =
    fst (saveDecisionsToDocument example_env (example_world\<lparr>decisions := [example_decision]\<rparr>))"

text \<open>
  The plug-in still holding the example decision of a document \<open>old\<close>, after the host has
  moved on to the example document, where nothing is stored.
\<close>

definition switched_world :: world where
  "switched_world = example_world\<lparr>decisions := [example_decision], currentDocumentId := ''old''\<rparr>"

text \<open>
  A second decision with the id of the first and another author, and the two of them in
  memory and in the stored blob.
\<close>

definition other_decision :: decision where
  "other_decision = example_decision\<lparr>d_title := ''Other'', d_author := ''Bob''\<rparr>"

definition duplicate_world :: world where
  "duplicate_world =
    fst (saveDecisionsToDocument example_env
          (example_world\<lparr>decisions := [example_decision, other_decision]\<rparr>))"

text \<open>
  The state after a \<^verbatim>\<open>create-decision\<close> whose write failed: the new decision is in
  memory, the stored blob is still empty, and the document is the one the plug-in is bound to.
\<close>

definition unsaved_world :: world where
  "unsaved_world =
    dispatch (example_env\<lparr>write_ok := False\<rparr>) (CreateDecision example_draft) example_world"

section \<open>Proof devices\<close>

text \<open>
  For the JSON round trip: how much of the counter a value needs, what may follow a
  number, and the characters a written value starts with.
\<close>

fun cost :: "json \<Rightarrow> nat"
  and cost_elems :: "json list \<Rightarrow> nat"
  and cost_members :: "(string \<times> json) list \<Rightarrow> nat" where
  "cost (JArr xs) = Suc (cost_elems xs)"
| "cost (JObj ms) = Suc (cost_members ms)"
| "cost JNull = 1"
| "cost (JBool b) = 1"
| "cost (JNum i) = 1"
| "cost (JStr s) = 1"
| "cost_elems [] = 0"
| "cost_elems (x # xs) = Suc (cost x + cost_elems xs)"
| "cost_members [] = 0"
| "cost_members ((k, v) # ms) = Suc (cost v + cost_members ms)"

definition ok_rest :: "string \<Rightarrow> bool" where
  "ok_rest r \<longleftrightarrow> (case r of [] \<Rightarrow> True | c # _ \<Rightarrow> \<not> is_digit c)"

definition value_start :: "char \<Rightarrow> bool" where
  "value_start c \<longleftrightarrow> c \<in> {CHR 0x22, CHR ''['', CHR ''{'', CHR ''n'', CHR ''t'', CHR ''f'', CHR ''-''} \<or> is_digit c"

section \<open>The JSON round trip\<close>

subsection \<open>Numbers\<close>

lemma of_char_digit_char: "n < 10 \<Longrightarrow> (of_char (digit_char n) :: nat) = 48 + n"
  by (simp add: digit_char_def)

lemma is_digit_digit_char: "n < 10 \<Longrightarrow> is_digit (digit_char n)"
  by (simp add: is_digit_def of_char_digit_char)

lemma digit_val_digit_char: "n < 10 \<Longrightarrow> digit_val (digit_char n) = n"
  by (simp add: digit_val_def of_char_digit_char)

lemma digits_nonempty: "digits n \<noteq> []"
  by (induction n rule: digits.induct) (subst digits.simps, simp)

lemma digits_all_digit: "\<forall>c \<in> set (digits n). is_digit c"
proof (induction n rule: digits.induct)
  case (1 n)
  show ?case
  proof (cases "n < 10")
    case True
    then show ?thesis by (subst digits.simps) (simp add: is_digit_digit_char)
  next
    case False
    with 1 show ?thesis by (subst digits.simps) (simp add: is_digit_digit_char)
  qed
qed

lemma parse_digits_snoc: "parse_digits (ds @ [c]) = 10 * parse_digits ds + digit_val c"
  by (simp add: parse_digits_def)

lemma parse_digits_digits: "parse_digits (digits n) = n"
proof (induction n rule: digits.induct)
  case (1 n)
  show ?case
  proof (cases "n < 10")
    case True
    then show ?thesis by (subst digits.simps) (simp add: parse_digits_def digit_val_digit_char)
  next
    case False
    with 1 show ?thesis
      by (subst digits.simps) (simp add: parse_digits_snoc digit_val_digit_char)
  qed
qed

lemma digit_char_zero: "n < 10 \<Longrightarrow> digit_char n = CHR ''0'' \<longleftrightarrow> n = 0"
proof -
  assume n: "n < 10"
  have "digit_char n = CHR ''0'' \<longleftrightarrow> (of_char (digit_char n) :: nat) = of_char (CHR ''0'')"
    by (simp only: of_char_eq_iff)
  with n show ?thesis by (simp add: of_char_digit_char)
qed

lemma hd_digits_nonzero: "0 < n \<Longrightarrow> hd (digits n) \<noteq> CHR ''0''"
proof (induction n rule: digits.induct)
  case (1 n)
  show ?case
  proof (cases "n < 10")
    case True
    with 1(2) show ?thesis by (subst digits.simps) (simp add: digit_char_zero)
  next
    case False
    then have "0 < n div 10" by simp
    with 1(1) False have "hd (digits (n div 10)) \<noteq> CHR ''0''" by simp
    with False show ?thesis
      by (subst digits.simps) (simp add: hd_append digits_nonempty)
  qed
qed

lemma length_digits_small: "n < 10 \<Longrightarrow> length (digits n) = 1"
  by (subst digits.simps) simp

lemma takeWhile_digits: "ok_rest r \<Longrightarrow> takeWhile is_digit (digits n @ r) = digits n"
  using digits_all_digit[of n]
  by (cases r) (auto simp: ok_rest_def takeWhile_append2 takeWhile_append1 takeWhile_eq_all_conv)

lemma dropWhile_digits: "ok_rest r \<Longrightarrow> dropWhile is_digit (digits n @ r) = r"
  using digits_all_digit[of n]
  by (cases r) (auto simp: ok_rest_def dropWhile_append2 dropWhile_append1)

lemma parse_nat_digits: "ok_rest r \<Longrightarrow> parse_nat (digits n @ r) = Some (n, r)"
proof -
  assume r: "ok_rest r"
  have "\<not> (hd (digits n) = CHR ''0'' \<and> length (digits n) > 1)"
  proof (cases "n < 10")
    case True then show ?thesis by (simp add: length_digits_small)
  next
    case False then show ?thesis using hd_digits_nonzero[of n] by simp
  qed
  then show ?thesis
    by (simp add: parse_nat_def takeWhile_digits[OF r] dropWhile_digits[OF r]
        digits_nonempty parse_digits_digits Let_def)
qed


subsection \<open>Strings\<close>

lemma hex_val_hex_digit: "n < 16 \<Longrightarrow> hex_val (hex_digit n) = Some n"
  by (simp add: hex_val_def hex_digit_def Let_def)

lemma hex_val_zero: "hex_val (CHR ''0'') = Some 0"
  by (simp add: hex_val_def)

lemma hex4_control:
  assumes "(of_char c :: nat) < 32"
  shows "hex4 (CHR ''0'') (CHR ''0'') (hex_digit (of_char c div 16)) (hex_digit (of_char c mod 16)) = Some c"
proof -
  have d: "(of_char c :: nat) div 16 < 16" using assms by simp
  have m: "(of_char c :: nat) mod 16 < 16" by simp
  show ?thesis
    using assms
    by (simp add: hex4_def hex_val_zero hex_val_hex_digit[OF d] hex_val_hex_digit[OF m])
qed

lemma parse_chars_quote_char:
  "parse_chars (quote_char c @ s) = cons_fst c (parse_chars s)"
proof -
  consider (dq) "c = CHR 0x22" | (bs) "c = CHR 0x5C" | (b) "c = CHR 0x08" | (f) "c = CHR 0x0C"
    | (n) "c = CHR 0x0A" | (r) "c = CHR 0x0D" | (t) "c = CHR 0x09"
    | (ctl) "c \<notin> {CHR 0x22, CHR 0x5C, CHR 0x08, CHR 0x0C, CHR 0x0A, CHR 0x0D, CHR 0x09}" "(of_char c :: nat) < 32"
    | (plain) "c \<notin> {CHR 0x22, CHR 0x5C, CHR 0x08, CHR 0x0C, CHR 0x0A, CHR 0x0D, CHR 0x09}" "\<not> (of_char c :: nat) < 32"
    by blast
  then show ?thesis
  proof cases
    case ctl
    then show ?thesis by (simp add: quote_char_def hex4_control)
  next
    case plain
    then show ?thesis by (simp add: quote_char_def)
  qed (simp_all add: quote_char_def unescape_def)
qed

lemma parse_chars_quoted:
  "parse_chars (concat (map quote_char s) @ CHR 0x22 # rest) = Some (s, rest)"
  by (induction s) (simp_all add: parse_chars_quote_char cons_fst_def)

lemma parse_chars_quote:
  "parse_chars (tl (quote s) @ rest) = Some (s, rest)"
  using parse_chars_quoted[of s rest] by (simp add: quote_def)


subsection \<open>Values\<close>

lemma value_start_not_ws: "value_start c \<Longrightarrow> \<not> is_ws c"
  by (auto simp: value_start_def is_ws_def is_digit_def)

lemma value_start_not_close: "value_start c \<Longrightarrow> c \<noteq> CHR '']'' \<and> c \<noteq> CHR ''}''"
  by (auto simp: value_start_def is_digit_def)

lemma number_toString_start: "\<exists>c t. number_toString i = c # t \<and> (c = CHR ''-'' \<or> is_digit c)"
proof (cases "i < 0")
  case True
  then show ?thesis by (simp add: number_toString_def)
next
  case False
  obtain c t where ct: "digits (nat i) = c # t"
    using digits_nonempty[of "nat i"] by (cases "digits (nat i)") auto
  then have "is_digit c" using digits_all_digit[of "nat i"] by simp
  with False ct show ?thesis by (simp add: number_toString_def)
qed

lemma stringify_start: "\<exists>c t. stringify v = c # t \<and> value_start c"
proof (cases v)
  case (JNum i)
  then show ?thesis using number_toString_start[of i] by (auto simp: value_start_def)
qed (auto simp: value_start_def quote_def)

lemma skip_ws_start: "value_start c \<Longrightarrow> skip_ws (c # s) = c # s"
  by (simp add: skip_ws_def value_start_not_ws)

lemma skip_ws_stringify: "skip_ws (stringify v @ s) = stringify v @ s"
  using stringify_start[of v] by (auto simp: skip_ws_start)

lemma is_digit_neq:
  "is_digit c \<Longrightarrow> c \<noteq> CHR 0x22 \<and> c \<noteq> CHR ''['' \<and> c \<noteq> CHR ''{'' \<and> c \<noteq> CHR ''n'' \<and> c \<noteq> CHR ''t'' \<and> c \<noteq> CHR ''f'' \<and> c \<noteq> CHR ''-''"
  by (auto simp: is_digit_def)

lemma parse_number_toString:
  "ok_rest r \<Longrightarrow> parse_number (number_toString i @ r) = Some (JNum i, r)"
proof (cases "i < 0")
  case True
  assume "ok_rest r"
  with True show ?thesis by (simp add: number_toString_def parse_number_def parse_nat_digits)
next
  case False
  assume r: "ok_rest r"
  obtain c t where ct: "digits (nat i) = c # t"
    using digits_nonempty[of "nat i"] by (cases "digits (nat i)") auto
  then have "is_digit c" using digits_all_digit[of "nat i"] by simp
  then have "c \<noteq> CHR ''-''" using is_digit_neq by blast
  moreover have "parse_nat (c # t @ r) = Some (nat i, r)"
    using parse_nat_digits[OF r, of "nat i"] ct by simp
  ultimately show ?thesis using False ct by (simp add: number_toString_def parse_number_def)
qed

lemma parse_value_number:
  assumes "ok_rest r"
  shows "parse_value (Suc n) (number_toString i @ r) = Some (JNum i, r)"
proof -
  obtain c t where ct: "number_toString i = c # t" and c: "c = CHR ''-'' \<or> is_digit c"
    using number_toString_start by blast
  have vs: "value_start c" using c by (auto simp: value_start_def)
  have neq: "c \<noteq> CHR 0x22 \<and> c \<noteq> CHR ''['' \<and> c \<noteq> CHR ''{'' \<and> c \<noteq> CHR ''n'' \<and> c \<noteq> CHR ''t'' \<and> c \<noteq> CHR ''f''"
    using c is_digit_neq by auto
  have "parse_number (c # t @ r) = Some (JNum i, r)"
    using parse_number_toString[OF assms, of i] ct by simp
  then show ?thesis using ct neq by (simp add: skip_ws_start[OF vs])
qed

lemma ok_rest_simps:
  "ok_rest []" "ok_rest (CHR '','' # s)" "ok_rest (CHR '']'' # s)" "ok_rest (CHR ''}'' # s)"
  by (simp_all add: ok_rest_def is_digit_def)

lemma skip_ws_delims:
  "skip_ws (CHR '','' # s) = CHR '','' # s" "skip_ws (CHR '']'' # s) = CHR '']'' # s"
  "skip_ws (CHR ''}'' # s) = CHR ''}'' # s" "skip_ws (CHR '':'' # s) = CHR '':'' # s"
  "skip_ws (CHR 0x22 # s) = CHR 0x22 # s"
  by (simp_all add: skip_ws_def is_ws_def)

lemma parse_value_scalar:
  "parse_value (Suc n) (''null'' @ r) = Some (JNull, r)"
  "parse_value (Suc n) (''true'' @ r) = Some (JBool True, r)"
  "parse_value (Suc n) (''false'' @ r) = Some (JBool False, r)"
  "parse_value (Suc n) (quote s @ r) = Some (JStr s, r)"
  using parse_chars_quoted[of s r]
  by (simp_all add: skip_ws_def is_ws_def expect_def quote_def)


lemma skip_ws_elems:
  "xs \<noteq> [] \<Longrightarrow> \<exists>c t. skip_ws (stringify_elems xs @ r) = c # t \<and> c \<noteq> CHR '']''"
proof (cases xs)
  case (Cons x ys)
  obtain c t where ct: "stringify x = c # t" "value_start c" using stringify_start by blast
  then show ?thesis using Cons value_start_not_close[of c]
    by (cases ys) (simp_all add: skip_ws_start)
qed simp

lemma skip_ws_members:
  "ms \<noteq> [] \<Longrightarrow> \<exists>t. skip_ws (stringify_members ms @ r) = CHR 0x22 # t"
proof (cases ms)
  case (Cons m ys)
  then show ?thesis
    by (cases m; cases ys) (simp_all add: quote_def skip_ws_delims)
qed simp

lemma parse_value_array:
  assumes "xs \<noteq> [] \<Longrightarrow> parse_elems n (stringify_elems xs @ r) = Some (xs, r)"
  shows "parse_value (Suc n) (stringify (JArr xs) @ r) = Some (JArr xs, r)"
proof (cases "xs = []")
  case True
  then show ?thesis by (simp add: skip_ws_def is_ws_def)
next
  case False
  obtain c t where "skip_ws (stringify_elems xs @ r) = c # t" "c \<noteq> CHR '']''"
    using skip_ws_elems[OF False] by blast
  then show ?thesis using assms[OF False]
    by (simp add: skip_ws_def[of "CHR ''['' # _"] is_ws_def)
qed

lemma parse_value_object:
  assumes "ms \<noteq> [] \<Longrightarrow> parse_members n (stringify_members ms @ r) = Some (ms, r)"
  shows "parse_value (Suc n) (stringify (JObj ms) @ r) = Some (JObj ms, r)"
proof (cases "ms = []")
  case True
  then show ?thesis by (simp add: skip_ws_def is_ws_def)
next
  case False
  obtain t where "skip_ws (stringify_members ms @ r) = CHR 0x22 # t"
    using skip_ws_members[OF False] by blast
  then show ?thesis using assms[OF False]
    by (simp add: skip_ws_def[of "CHR ''{'' # _"] is_ws_def)
qed

lemma parse_elems_step:
  assumes v: "\<And>r'. ok_rest r' \<Longrightarrow> parse_value n (stringify x @ r') = Some (x, r')"
    and es: "ys \<noteq> [] \<Longrightarrow> parse_elems n (stringify_elems ys @ r) = Some (ys, r)"
  shows "parse_elems (Suc n) (stringify_elems (x # ys) @ r) = Some (x # ys, r)"
proof (cases ys)
  case Nil
  then show ?thesis using v[of "CHR '']'' # r"]
    by (simp add: ok_rest_simps skip_ws_delims)
next
  case (Cons y zs)
  then show ?thesis using v[of "CHR '','' # stringify_elems ys @ r"] es
    by (simp add: ok_rest_simps skip_ws_delims cons_fst_def)
qed

lemma parse_members_step:
  assumes v: "\<And>r'. ok_rest r' \<Longrightarrow> parse_value n (stringify x @ r') = Some (x, r')"
    and es: "ys \<noteq> [] \<Longrightarrow> parse_members n (stringify_members ys @ r) = Some (ys, r)"
  shows "parse_members (Suc n) (stringify_members ((k, x) # ys) @ r) = Some ((k, x) # ys, r)"
proof -
  have q: "\<And>t. quote k @ t = CHR 0x22 # concat (map quote_char k) @ CHR 0x22 # t"
    by (simp add: quote_def)
  show ?thesis
  proof (cases ys)
    case Nil
    then show ?thesis using v[of "CHR ''}'' # r"]
      by (simp add: q ok_rest_simps skip_ws_delims parse_chars_quoted)
  next
    case (Cons y zs)
    then show ?thesis using v[of "CHR '','' # stringify_members ys @ r"] es
      by (simp add: q ok_rest_simps skip_ws_delims parse_chars_quoted cons_fst_def)
  qed
qed

lemma parse_stringify_fuel:
  "(\<forall>v r. cost v \<le> n \<longrightarrow> ok_rest r \<longrightarrow> parse_value n (stringify v @ r) = Some (v, r)) \<and>
   (\<forall>xs r. xs \<noteq> [] \<longrightarrow> cost_elems xs \<le> n \<longrightarrow>
       parse_elems n (stringify_elems xs @ r) = Some (xs, r)) \<and>
   (\<forall>ms r. ms \<noteq> [] \<longrightarrow> cost_members ms \<le> n \<longrightarrow>
       parse_members n (stringify_members ms @ r) = Some (ms, r))"
proof (induction n)
  case 0
  have "\<And>v. cost v \<noteq> 0" by (case_tac v) simp_all
  moreover have "\<And>xs. xs \<noteq> [] \<Longrightarrow> cost_elems xs \<noteq> 0" by (case_tac xs) simp_all
  moreover have "\<And>ms. ms \<noteq> [] \<Longrightarrow> cost_members ms \<noteq> 0" by (case_tac ms) auto
  ultimately show ?case by (metis le_zero_eq)
next
  case (Suc n)
  have val: "parse_value (Suc n) (stringify v @ r) = Some (v, r)"
    if "cost v \<le> Suc n" "ok_rest r" for v r
  proof (cases v)
    case JNull then show ?thesis using parse_value_scalar(1) by simp
  next
    case (JBool b) then show ?thesis using parse_value_scalar(2,3) by simp
  next
    case (JNum i) then show ?thesis using parse_value_number[OF that(2)] by simp
  next
    case (JStr s) then show ?thesis using parse_value_scalar(4) by simp
  next
    case (JArr xs)
    with that Suc show ?thesis by (intro parse_value_array[of xs n r, folded JArr]) simp
  next
    case (JObj ms)
    with that Suc show ?thesis by (intro parse_value_object[of ms n r, folded JObj]) simp
  qed
  have els: "parse_elems (Suc n) (stringify_elems xs @ r) = Some (xs, r)"
    if ne: "xs \<noteq> []" and le: "cost_elems xs \<le> Suc n" for xs r
  proof -
    obtain x ys where xs: "xs = x # ys" using ne by (cases xs) auto
    with le have c: "cost x \<le> n" "cost_elems ys \<le> n" by simp_all
    show ?thesis unfolding xs
      using Suc c by (intro parse_elems_step) simp_all
  qed
  have mems: "parse_members (Suc n) (stringify_members ms @ r) = Some (ms, r)"
    if ne: "ms \<noteq> []" and le: "cost_members ms \<le> Suc n" for ms r
  proof -
    obtain k x ys where ms: "ms = (k, x) # ys" using ne by (cases ms) auto
    with le have c: "cost x \<le> n" "cost_members ys \<le> n" by simp_all
    show ?thesis unfolding ms
      using Suc c by (intro parse_members_step) simp_all
  qed
  from val els mems show ?case by blast
qed

lemma length_number_toString: "0 < length (number_toString i)"
  using number_toString_start[of i] by auto

lemma cost_le_length:
  "cost v \<le> length (stringify v)"
  "cost_elems xs \<le> length (stringify_elems xs)"
  "cost_members ms \<le> length (stringify_members ms)"
proof (induction v and xs and ms rule: stringify_stringify_elems_stringify_members.induct)
  case (3 i)
  then show ?case using length_number_toString[of i] by (simp add: Suc_le_eq)
qed (simp_all add: quote_def)

lemma JSON_parse_stringify: "JSON_parse (stringify v) = Some v"
proof -
  have "cost v \<le> Suc (length (stringify v))" using cost_le_length(1)[of v] by simp
  then have "parse_value (Suc (length (stringify v))) (stringify v @ []) = Some (v, [])"
    using parse_stringify_fuel[of "Suc (length (stringify v))"] ok_rest_simps(1) by blast
  then show ?thesis by (simp add: JSON_parse_def skip_ws_def)
qed

subsection \<open>Records\<close>

lemma all_some_comp:
  "(\<And>x. f (g x) = Some x) \<Longrightarrow> all_some (map (f \<circ> g) xs) = Some xs"
  by (induction xs) simp_all

lemma strings_of_json_inv: "strings_of_json (strings_to_json xs) = Some xs"
  by (simp add: strings_to_json_def all_some_comp)

lemma link_of_json_inv: "link_of_json (link_to_json l) = Some l"
  by (simp add: link_to_json_def get_prop_def)

lemma links_of_json_inv: "links_of_json (JArr (map link_to_json ls)) = Some ls"
  by (simp add: all_some_comp link_of_json_inv)

lemma status_of_text_inv: "status_of_text (status_text s) = Some s"
  by (cases s) (simp_all add: status_text_def status_of_text_def)

lemma get_prop_Nil: "get_prop [] k = None"
  by (simp add: get_prop_def)

lemma get_prop_Cons:
  "get_prop ((k, v) # ms) k' =
    (if k = k' then (case get_prop ms k' of None \<Rightarrow> Some v | Some y \<Rightarrow> Some y)
     else get_prop ms k')"
  by (simp add: get_prop_def map_add_def split: option.splits)

lemma get_prop_opt_member:
  "get_prop (opt_member k f x @ ms) k' =
    (if k = k' then (case get_prop ms k' of None \<Rightarrow> map_option f x | Some y \<Rightarrow> Some y)
     else get_prop ms k')"
  by (cases x; cases "get_prop ms k'") (simp_all add: opt_member_def get_prop_Cons)

lemma get_prop_opt_member_last:
  "get_prop (opt_member k f x) k' = (if k = k' then map_option f x else None)"
  using get_prop_opt_member[of k f x "[]" k'] by (simp add: get_prop_Nil)

lemmas get_prop_simps = get_prop_Cons get_prop_Nil get_prop_opt_member get_prop_opt_member_last

lemma opt_read_strings: "opt_read strings_of_json (map_option strings_to_json x) = Some x"
  by (cases x) (simp_all add: strings_to_json_def all_some_comp)

lemma opt_read_str: "opt_read str_of (map_option JStr x) = Some x"
  by (cases x) simp_all

lemma resource_of_json_inv: "resource_of_json (resource_to_json r) = Some r"
  by (simp add: resource_to_json_def get_prop_simps opt_prop_def opt_read_strings)

lemma decision_of_json_inv: "decision_of_json (decision_to_json d) = Some d"
  by (simp add: decision_to_json_def get_prop_simps opt_prop_def opt_read_strings opt_read_str
       links_of_json_inv[simplified] status_of_text_inv all_some_comp link_of_json_inv)

lemma decisions_of_json_inv: "decisions_of_json (JArr (map decision_to_json ds)) = Some ds"
  by (simp add: all_some_comp decision_of_json_inv)

lemma resources_of_json_inv: "resources_of_json (JArr (map resource_to_json rs)) = Some rs"
  by (simp add: all_some_comp resource_of_json_inv)

lemma parse_stringify_decisions: "parse_decisions (stringify_decisions ds) = Some ds"
  by (simp add: parse_decisions_def stringify_decisions_def JSON_parse_stringify
        decisions_of_json_inv del: stringify.simps decisions_of_json.simps)

lemma parse_stringify_resources: "parse_resources (stringify_resources rs) = Some rs"
  by (simp add: parse_resources_def stringify_resources_def JSON_parse_stringify
        resources_of_json_inv del: stringify.simps resources_of_json.simps)

lemma stringify_decisions_nonempty: "stringify_decisions ds \<noteq> []"
  by (simp add: stringify_decisions_def)

lemma stringify_resources_nonempty: "stringify_resources rs \<noteq> []"
  by (simp add: stringify_resources_def)


section \<open>Loading and saving\<close>

lemma keys_differ: "RESOURCES_KEY \<noteq> DECISIONS_KEY" "DECISIONS_KEY \<noteq> RESOURCES_KEY"
  by (simp_all add: RESOURCES_KEY_def DECISIONS_KEY_def)

lemma emit_fields [simp]:
  "decisions (emit es w) = decisions w" "resources (emit es w) = resources w"
  "figma (emit es w) = figma w" "currentDocumentId (emit es w) = currentDocumentId w"
  "trace (emit es w) = trace w @ es"
  by (simp_all add: emit_def)

lemma sendSelectionInfo_fields [simp]:
  "decisions (sendSelectionInfo w) = decisions w" "resources (sendSelectionInfo w) = resources w"
  "figma (sendSelectionInfo w) = figma w"
  "currentDocumentId (sendSelectionInfo w) = currentDocumentId w"
  by (simp_all add: sendSelectionInfo_def Let_def)

lemma storedDecisions_after_save:
  "storedDecisions (setSharedPluginData h PLUGIN_NAMESPACE DECISIONS_KEY (stringify_decisions ds)) = Some ds"
  by (simp add: storedDecisions_def getSharedPluginData_def setSharedPluginData_def
        stringify_decisions_nonempty parse_stringify_decisions)

lemma storedResources_after_save:
  "storedResources (setSharedPluginData h PLUGIN_NAMESPACE RESOURCES_KEY (stringify_resources rs)) = Some rs"
  by (simp add: storedResources_def getSharedPluginData_def setSharedPluginData_def
        stringify_resources_nonempty parse_stringify_resources)

lemma storedResources_other_key:
  "storedResources (setSharedPluginData h PLUGIN_NAMESPACE DECISIONS_KEY v) = storedResources h"
  by (simp add: storedResources_def getSharedPluginData_def setSharedPluginData_def keys_differ)

lemma storedDecisions_other_key:
  "storedDecisions (setSharedPluginData h PLUGIN_NAMESPACE RESOURCES_KEY v) = storedDecisions h"
  by (simp add: storedDecisions_def getSharedPluginData_def setSharedPluginData_def keys_differ)

lemma loadDecisions_stored:
  "storedDecisions (figma w) = Some ds \<Longrightarrow>
   \<exists>w'. loadDecisions w = Some w' \<and> decisions w' = ds \<and> resources w' = resources w \<and>
        figma w' = figma w \<and> currentDocumentId w' = currentDocumentId w"
  by (auto simp: loadDecisions_def storedDecisions_def Let_def split: if_splits)

lemma loadResources_stored:
  "storedResources (figma w) = Some rs \<Longrightarrow>
   \<exists>w'. loadResources w = Some w' \<and> resources w' = rs \<and> decisions w' = decisions w \<and>
        figma w' = figma w \<and> currentDocumentId w' = currentDocumentId w"
  by (auto simp: loadResources_def storedResources_def Let_def split: if_splits)

lemma loadDecisions_figma: "loadDecisions w = Some w' \<Longrightarrow> figma w' = figma w"
  by (auto simp: loadDecisions_def Let_def split: if_splits option.splits)

lemma loadResources_figma: "loadResources w = Some w' \<Longrightarrow> figma w' = figma w"
  by (auto simp: loadResources_def Let_def split: if_splits option.splits)

lemma loadFailed_fields [simp]:
  "figma (loadFailed w) = figma w" "decisions (loadFailed w) = []" "resources (loadFailed w) = []"
  "currentDocumentId (loadFailed w) = currentDocumentId w"
  by (simp_all add: loadFailed_def)

lemma initializePlugin_figma [simp]: "figma (initializePlugin w) = figma w"
proof (cases "loadDecisions (w\<lparr>currentDocumentId := documentIdentity (figma w)\<rparr>)")
  case None
  then show ?thesis by (simp add: initializePlugin_def Let_def)
next
  case (Some wa)
  then have a: "figma wa = figma w" using loadDecisions_figma by fastforce
  show ?thesis
  proof (cases "loadResources wa")
    case None
    with Some a show ?thesis by (simp add: initializePlugin_def Let_def)
  next
    case (Some wb)
    then have "figma wb = figma wa" using loadResources_figma by blast
    with Some \<open>loadDecisions _ = Some wa\<close> a show ?thesis
      by (simp add: initializePlugin_def Let_def)
  qed
qed

lemma initializePlugin_stored:
  assumes "storedDecisions (figma w) = Some ds" and "storedResources (figma w) = Some rs"
  shows "decisions (initializePlugin w) = ds \<and> resources (initializePlugin w) = rs"
proof -
  let ?w1 = "w\<lparr>currentDocumentId := documentIdentity (figma w)\<rparr>"
  from assms(1) obtain wa where wa: "loadDecisions ?w1 = Some wa" "decisions wa = ds" "figma wa = figma w"
    using loadDecisions_stored[of ?w1 ds] by auto
  from assms(2) wa(3) obtain wb where wb: "loadResources wa = Some wb" "resources wb = rs"
     "decisions wb = decisions wa"
    using loadResources_stored[of wa rs] by auto
  show ?thesis using wa wb by (simp add: initializePlugin_def Let_def)
qed

lemma initializePlugin_in_sync: "in_sync w \<Longrightarrow> in_sync (initializePlugin w)"
  using initializePlugin_stored[of w "decisions w" "resources w"] by (simp add: in_sync_def)

lemma checkForDocumentChange_in_sync: "in_sync w \<Longrightarrow> in_sync (checkForDocumentChange w)"
  by (simp add: checkForDocumentChange_def initializePlugin_in_sync)

lemma in_sync_emit [simp]: "in_sync (emit es w) = in_sync w"
  by (simp add: in_sync_def)

lemma dispatch_in_sync: "in_sync w \<Longrightarrow> write_ok e \<Longrightarrow> in_sync (dispatch e msg w)"
  by (cases msg)
     (auto simp: in_sync_def saveDecisionsToDocument_def saveResourcesToDocument_def Let_def
        storedDecisions_after_save storedResources_after_save storedResources_other_key
        storedDecisions_other_key split: option.splits node_result.splits)

lemma onmessage_in_sync: "in_sync w \<Longrightarrow> write_ok e \<Longrightarrow> in_sync (onmessage e msg w)"
  by (simp add: onmessage_def dispatch_in_sync checkForDocumentChange_in_sync)

lemma dispatch_in_sync':
  "in_sync w \<Longrightarrow> (attempts_save msg w \<longrightarrow> write_ok e) \<Longrightarrow> in_sync (dispatch e msg w)"
  by (cases msg)
     (auto simp: in_sync_def saveDecisionsToDocument_def saveResourcesToDocument_def Let_def
        storedDecisions_after_save storedResources_after_save storedResources_other_key
        storedDecisions_other_key split: option.splits node_result.splits)

lemma onmessage_in_sync':
  "in_sync w \<Longrightarrow> (attempts_save msg (checkForDocumentChange w) \<longrightarrow> write_ok e) \<Longrightarrow>
     in_sync (onmessage e msg w)"
  by (simp add: onmessage_def dispatch_in_sync' checkForDocumentChange_in_sync del: dispatch.simps)

lemma saves_succeed_all_ok:
  "list_all (\<lambda>(e, msg). write_ok e) cmds \<Longrightarrow> saves_succeed cmds w"
  by (induction cmds arbitrary: w) auto

section \<open>Lookup by id\<close>

lemma findIndex_Some:
  "findIndex P xs = Some i \<Longrightarrow> i < length xs \<and> P (xs ! i) \<and> (\<forall>j<i. \<not> P (xs ! j))"
proof (induction xs arbitrary: i)
  case Nil
  then show ?case by simp
next
  case (Cons x xs)
  show ?case
  proof (cases "P x")
    case True
    with Cons.prems show ?thesis by simp
  next
    case False
    with Cons.prems obtain k where k: "findIndex P xs = Some k" "i = Suc k" by auto
    from Cons.IH[OF k(1)] False k(2) show ?thesis by (auto simp: less_Suc_eq_0_disj)
  qed
qed

lemma findIndex_None: "findIndex P xs = None \<longleftrightarrow> (\<forall>x \<in> set xs. \<not> P x)"
  by (induction xs) auto

lemma findIndex_unique:
  assumes "distinct (map f xs)" and "x \<in> set xs"
  shows "\<exists>i. findIndex (\<lambda>y. f y = f x) xs = Some i \<and> xs ! i = x"
  using assms
proof (induction xs)
  case Nil
  then show ?case by simp
next
  case (Cons a xs)
  show ?case
  proof (cases "f a = f x")
    case True
    with Cons.prems have "a = x" by (auto simp: image_iff)
    with True show ?thesis by simp
  next
    case False
    with Cons show ?thesis by auto
  qed
qed

section \<open>The document-change check\<close>

lemma saved_world_decisions: "decisions saved_world = [example_decision]"
  by (simp add: saved_world_def saveDecisionsToDocument_def example_env_def example_world_def)

lemma saved_world_in_sync: "in_sync saved_world"
  by (simp add: in_sync_def saved_world_def saveDecisionsToDocument_def example_env_def
        storedDecisions_after_save storedResources_other_key)
     (simp add: example_world_def example_host_def storedResources_def getSharedPluginData_def)

lemma checkForDocumentChange_collections:
  "in_sync w \<Longrightarrow> decisions (checkForDocumentChange w) = decisions w \<and>
     resources (checkForDocumentChange w) = resources w"
  using initializePlugin_stored[of w "decisions w" "resources w"]
  by (simp add: checkForDocumentChange_def in_sync_def)

lemma checkForDocumentChange_figma [simp]: "figma (checkForDocumentChange w) = figma w"
  by (simp add: checkForDocumentChange_def)

lemma checkForDocumentChange_parenthesised_same:
  "currentDocumentId w = documentIdentity (figma w) \<Longrightarrow> checkForDocumentChange_parenthesised w = w"
  by (simp add: checkForDocumentChange_parenthesised_def)

lemma checkForDocumentChange_parenthesised_changed:
  "currentDocumentId w \<noteq> documentIdentity (figma w) \<Longrightarrow>
     checkForDocumentChange_parenthesised w = initializePlugin w"
  by (simp add: checkForDocumentChange_parenthesised_def)

section \<open>Counting terminal events\<close>

lemma terminalEvents_emit: "terminalEvents (emit es w) = terminalEvents w + length (filter is_terminal es)"
  by (simp add: terminalEvents_def)

lemma terminalEvents_trace: "trace w' = trace w \<Longrightarrow> terminalEvents w' = terminalEvents w"
  by (simp add: terminalEvents_def)

lemma terminalEvents_update [simp]:
  "terminalEvents (w\<lparr>decisions := ds\<rparr>) = terminalEvents w"
  "terminalEvents (w\<lparr>resources := rs\<rparr>) = terminalEvents w"
  "terminalEvents (w\<lparr>figma := h\<rparr>) = terminalEvents w"
  "terminalEvents (w\<lparr>currentDocumentId := c\<rparr>) = terminalEvents w"
  by (simp_all add: terminalEvents_def)

lemma terminalEvents_sendSelectionInfo [simp]:
  "terminalEvents (sendSelectionInfo w) = terminalEvents w"
  by (simp add: sendSelectionInfo_def Let_def terminalEvents_emit)

lemma terminalEvents_loadDecisions:
  "loadDecisions w = Some w' \<Longrightarrow> terminalEvents w' = terminalEvents w"
  by (auto simp: loadDecisions_def Let_def terminalEvents_def emit_def split: if_splits option.splits)

lemma terminalEvents_loadResources:
  "loadResources w = Some w' \<Longrightarrow> terminalEvents w' = terminalEvents w"
  by (auto simp: loadResources_def Let_def terminalEvents_def emit_def split: if_splits option.splits)

lemma terminalEvents_loadFailed [simp]: "terminalEvents (loadFailed w) = terminalEvents w"
  by (simp add: loadFailed_def terminalEvents_def emit_def commandErrors_def)

lemma terminalEvents_initializePlugin [simp]:
  "terminalEvents (initializePlugin w) = terminalEvents w"
proof -
  let ?w1 = "w\<lparr>currentDocumentId := documentIdentity (figma w)\<rparr>"
  have w1: "terminalEvents ?w1 = terminalEvents w" by (simp add: terminalEvents_def)
  show ?thesis
  proof (cases "loadDecisions ?w1")
    case None
    then show ?thesis using w1 by (simp add: initializePlugin_def Let_def terminalEvents_emit)
  next
    case (Some wa)
    then have a: "terminalEvents wa = terminalEvents w"
      using terminalEvents_loadDecisions[of ?w1 wa] w1 by simp
    show ?thesis
    proof (cases "loadResources wa")
      case None
      with Some a show ?thesis by (simp add: initializePlugin_def Let_def terminalEvents_emit)
    next
      case (Some wb)
      then have "terminalEvents wb = terminalEvents w"
        using terminalEvents_loadResources[of wa wb] a by simp
      with Some \<open>loadDecisions ?w1 = Some wa\<close> show ?thesis
        by (simp add: initializePlugin_def Let_def terminalEvents_emit)
    qed
  qed
qed

lemma terminalEvents_checkForDocumentChange [simp]:
  "terminalEvents (checkForDocumentChange w) = terminalEvents w"
  by (simp add: checkForDocumentChange_def)

lemma terminalEvents_save [simp]:
  "terminalEvents (fst (saveDecisionsToDocument e w)) = terminalEvents w"
  "terminalEvents (fst (saveResourcesToDocument e w)) = terminalEvents w"
  by (simp_all add: saveDecisionsToDocument_def saveResourcesToDocument_def terminalEvents_def)

lemma dispatch_terminal_create_delete:
  "terminalEvents (dispatch e (CreateDecision c) w) = terminalEvents w + 1"
  "terminalEvents (dispatch e (CreateResource rc) w) = terminalEvents w + 1"
  "terminalEvents (dispatch e (DeleteDecision i) w) = terminalEvents w + 1"
  "terminalEvents (dispatch e (DeleteResource i) w) = terminalEvents w + 1"
  by (simp_all add: Let_def split_beta terminalEvents_emit commandErrors_def)

lemma dispatch_terminal_edit_decision:
  "terminalEvents (dispatch e (EditDecision p) w) =
     terminalEvents w + (if d_id p \<in> d_id ` set (decisions w) then 1 else 0)"
proof (cases "findIndex (\<lambda>x. d_id x = d_id p) (decisions w)")
  case None
  then have "d_id p \<notin> d_id ` set (decisions w)" by (auto simp: findIndex_None)
  with None show ?thesis by simp
next
  case (Some i)
  from findIndex_Some[OF Some] have "d_id p \<in> d_id ` set (decisions w)"
    by (metis imageI nth_mem)
  with Some show ?thesis
    by (simp add: Let_def split_beta terminalEvents_emit commandErrors_def)
qed

lemma dispatch_terminal_edit_resource:
  "terminalEvents (dispatch e (EditResource p) w) =
     terminalEvents w + (if r_id p \<in> r_id ` set (resources w) then 1 else 0)"
proof (cases "findIndex (\<lambda>x. r_id x = r_id p) (resources w)")
  case None
  then have "r_id p \<notin> r_id ` set (resources w)" by (auto simp: findIndex_None)
  with None show ?thesis by simp
next
  case (Some i)
  from findIndex_Some[OF Some] have "r_id p \<in> r_id ` set (resources w)"
    by (metis imageI nth_mem)
  with Some show ?thesis
    by (simp add: Let_def split_beta terminalEvents_emit commandErrors_def)
qed

section \<open>Identifiers from the clock\<close>

lemma digit_chars:
  "digit_char 0 = CHR ''0''" "digit_char 1 = CHR ''1''" "digit_char 2 = CHR ''2''"
  "digit_char 3 = CHR ''3''" "digit_char 4 = CHR ''4''" "digit_char 5 = CHR ''5''"
  "digit_char 6 = CHR ''6''" "digit_char 7 = CHR ''7''" "digit_char 8 = CHR ''8''"
  "digit_char 9 = CHR ''9''" "digit_char (Suc 0) = CHR ''1''"
  by code_simp+

lemma number_toString_example: "number_toString 1700000000000 = ''1700000000000''"
  by (simp add: number_toString_def digits.simps digit_chars)

lemma create_appends:
  "in_sync w \<Longrightarrow>
   decisions (onmessage e (CreateDecision c) w) = decisions w @ [newDecision (figma w) e c]"
  using checkForDocumentChange_collections[of w]
  by (simp add: onmessage_def saveDecisionsToDocument_def Let_def)

lemma newDecision_id: "d_id (newDecision h e c) = number_toString (now1 e)"
  by (simp add: newDecision_def)

section \<open>Truncation\<close>

lemma truncated_short: "length s \<le> 100 \<Longrightarrow> truncated s = s"
  by (simp add: truncated_def)

lemma truncated_long: "length s > 100 \<Longrightarrow> truncated s = take 100 s @ ''...''"
  by (simp add: truncated_def)

section \<open>Handlers on a state in step with storage\<close>

lemma in_sync_after_save_example:
  "in_sync (fst (saveDecisionsToDocument example_env (example_world\<lparr>decisions := ds\<rparr>)))"
  by (simp add: in_sync_def saveDecisionsToDocument_def example_env_def
        storedDecisions_after_save storedResources_other_key)
     (simp add: example_world_def example_host_def storedResources_def getSharedPluginData_def)

lemma duplicate_world_in_sync: "in_sync duplicate_world"
  unfolding duplicate_world_def by (rule in_sync_after_save_example)

lemma duplicate_world_decisions: "decisions duplicate_world = [example_decision, other_decision]"
  by (simp add: duplicate_world_def saveDecisionsToDocument_def example_env_def example_world_def)

lemma onmessage_edit_found:
  assumes "in_sync w" and "findIndex (\<lambda>x. d_id x = d_id p) (decisions w) = Some i"
  shows "decisions (onmessage e (EditDecision p) w) =
           (decisions w)[i := p\<lparr>d_timestamp := now1 e, d_author := d_author (decisions w ! i)\<rparr>]"
    and "resources (onmessage e (EditDecision p) w) = resources w"
proof -
  let ?w1 = "checkForDocumentChange w"
  have c: "decisions ?w1 = decisions w" "resources ?w1 = resources w"
    using checkForDocumentChange_collections[OF assms(1)] by simp_all
  show "decisions (onmessage e (EditDecision p) w) =
           (decisions w)[i := p\<lparr>d_timestamp := now1 e, d_author := d_author (decisions w ! i)\<rparr>]"
    using assms(2) c
    by (simp add: onmessage_def saveDecisionsToDocument_def editedDecision_def Let_def)
  show "resources (onmessage e (EditDecision p) w) = resources w"
    using assms(2) c
    by (simp add: onmessage_def saveDecisionsToDocument_def editedDecision_def Let_def)
qed

lemma onmessage_edit_missing:
  assumes "in_sync w" and "d_id p \<notin> d_id ` set (decisions w)"
  shows "onmessage e (EditDecision p) w = checkForDocumentChange w"
proof -
  have "decisions (checkForDocumentChange w) = decisions w"
    using checkForDocumentChange_collections[OF assms(1)] by simp
  with assms(2) have "\<forall>x \<in> set (decisions (checkForDocumentChange w)). d_id x \<noteq> d_id p"
    by (metis imageI)
  then have "findIndex (\<lambda>x. d_id x = d_id p) (decisions (checkForDocumentChange w)) = None"
    by (simp add: findIndex_None)
  then show ?thesis by (simp add: onmessage_def)
qed

lemma onmessage_delete:
  assumes "in_sync w"
  shows "decisions (onmessage e (DeleteDecision i) w) = filter (\<lambda>d. d_id d \<noteq> i) (decisions w)"
    and "resources (onmessage e (DeleteDecision i) w) = resources w"
proof -
  have c: "decisions (checkForDocumentChange w) = decisions w"
          "resources (checkForDocumentChange w) = resources w"
    using checkForDocumentChange_collections[OF assms(1)] by simp_all
  show "decisions (onmessage e (DeleteDecision i) w) = filter (\<lambda>d. d_id d \<noteq> i) (decisions w)"
    using c by (simp add: onmessage_def saveDecisionsToDocument_def Let_def)
  show "resources (onmessage e (DeleteDecision i) w) = resources w"
    using c by (simp add: onmessage_def saveDecisionsToDocument_def Let_def)
qed

lemma switched_world_reload:
  "decisions (checkForDocumentChange switched_world) = [] \<and>
   resources (checkForDocumentChange switched_world) = [] \<and>
   decisions (checkForDocumentChange_parenthesised switched_world) = []"
proof -
  have f: "figma switched_world = example_host"
    by (simp add: switched_world_def example_world_def)
  have sd: "storedDecisions (figma switched_world) = Some []"
    by (simp add: f storedDecisions_def getSharedPluginData_def example_host_def)
  have sr: "storedResources (figma switched_world) = Some []"
    by (simp add: f storedResources_def getSharedPluginData_def example_host_def)
  have i: "decisions (initializePlugin switched_world) = [] \<and>
           resources (initializePlugin switched_world) = []"
    using initializePlugin_stored[OF sd sr] by simp
  have c: "checkForDocumentChange switched_world = initializePlugin switched_world"
    by (simp add: checkForDocumentChange_def f example_host_def)
  have p: "checkForDocumentChange_parenthesised switched_world = initializePlugin switched_world"
    by (simp add: checkForDocumentChange_parenthesised_def f documentIdentity_def example_host_def)
       (simp add: switched_world_def)
  show ?thesis by (simp add: c p i)
qed

section \<open>Terminal events, one by one\<close>

lemma terminalTrace_emit: "terminalTrace (emit es w) = terminalTrace w @ filter is_terminal es"
  by (simp add: terminalTrace_def)

lemma terminalTrace_update [simp]:
  "terminalTrace (w\<lparr>decisions := ds\<rparr>) = terminalTrace w"
  "terminalTrace (w\<lparr>resources := rs\<rparr>) = terminalTrace w"
  "terminalTrace (w\<lparr>figma := h\<rparr>) = terminalTrace w"
  "terminalTrace (w\<lparr>currentDocumentId := c\<rparr>) = terminalTrace w"
  by (simp_all add: terminalTrace_def)

lemma terminalTrace_sendSelectionInfo [simp]:
  "terminalTrace (sendSelectionInfo w) = terminalTrace w"
  by (simp add: sendSelectionInfo_def Let_def terminalTrace_emit)

lemma terminalTrace_loadDecisions:
  "loadDecisions w = Some w' \<Longrightarrow> terminalTrace w' = terminalTrace w"
  by (auto simp: loadDecisions_def Let_def terminalTrace_def emit_def split: if_splits option.splits)

lemma terminalTrace_loadResources:
  "loadResources w = Some w' \<Longrightarrow> terminalTrace w' = terminalTrace w"
  by (auto simp: loadResources_def Let_def terminalTrace_def emit_def split: if_splits option.splits)

lemma terminalTrace_loadFailed [simp]: "terminalTrace (loadFailed w) = terminalTrace w"
  by (simp add: loadFailed_def terminalTrace_def emit_def commandErrors_def)

lemma terminalTrace_initializePlugin [simp]:
  "terminalTrace (initializePlugin w) = terminalTrace w"
proof -
  let ?w1 = "w\<lparr>currentDocumentId := documentIdentity (figma w)\<rparr>"
  have w1: "terminalTrace ?w1 = terminalTrace w" by simp
  show ?thesis
  proof (cases "loadDecisions ?w1")
    case None
    then show ?thesis using w1 by (simp add: initializePlugin_def Let_def terminalTrace_emit)
  next
    case (Some wa)
    then have a: "terminalTrace wa = terminalTrace w"
      using terminalTrace_loadDecisions[of ?w1 wa] w1 by simp
    show ?thesis
    proof (cases "loadResources wa")
      case None
      with Some a show ?thesis by (simp add: initializePlugin_def Let_def terminalTrace_emit)
    next
      case (Some wb)
      then have "terminalTrace wb = terminalTrace w"
        using terminalTrace_loadResources[of wa wb] a by simp
      with Some \<open>loadDecisions ?w1 = Some wa\<close> show ?thesis
        by (simp add: initializePlugin_def Let_def terminalTrace_emit)
    qed
  qed
qed

lemma terminalTrace_checkForDocumentChange [simp]:
  "terminalTrace (checkForDocumentChange w) = terminalTrace w"
  by (simp add: checkForDocumentChange_def)

lemma dispatch_terminalTrace_create_delete:
  "terminalTrace (dispatch e (CreateDecision c) w) =
     terminalTrace w @ [if write_ok e then PostMessage (DecisionCreated (newDecision (figma w) e c))
                        else Notify ''Error saving decision'']"
  "terminalTrace (dispatch e (CreateResource rc) w) =
     terminalTrace w @ [if write_ok e then PostMessage (ResourceCreated (newResource (figma w) e rc))
                        else Notify ''Error saving resource'']"
  "terminalTrace (dispatch e (DeleteDecision i) w) =
     terminalTrace w @ [if write_ok e then PostMessage (DecisionDeleted i)
                        else Notify ''Error deleting decision'']"
  "terminalTrace (dispatch e (DeleteResource i) w) =
     terminalTrace w @ [if write_ok e then PostMessage (ResourceDeleted i)
                        else Notify ''Error deleting resource'']"
  by (simp_all add: Let_def saveDecisionsToDocument_def saveResourcesToDocument_def
        terminalTrace_emit commandErrors_def)

lemma dispatch_terminalTrace_edit_decision:
  "terminalTrace (dispatch e (EditDecision p) w) =
     terminalTrace w @
       (case findIndex (\<lambda>d. d_id d = d_id p) (decisions w) of
          None \<Rightarrow> []
        | Some i \<Rightarrow>
            [if write_ok e
             then PostMessage (DecisionUpdated (editedDecision e p (decisions w ! i)))
             else Notify ''Error updating decision''])"
  by (cases "findIndex (\<lambda>d. d_id d = d_id p) (decisions w)")
     (simp_all add: Let_def saveDecisionsToDocument_def terminalTrace_emit commandErrors_def)

lemma dispatch_terminalTrace_edit_resource:
  "terminalTrace (dispatch e (EditResource q) w) =
     terminalTrace w @
       (case findIndex (\<lambda>r. r_id r = r_id q) (resources w) of
          None \<Rightarrow> []
        | Some i \<Rightarrow>
            [if write_ok e
             then PostMessage (ResourceUpdated (editedResource e q (resources w ! i)))
             else Notify ''Error updating resource''])"
  by (cases "findIndex (\<lambda>r. r_id r = r_id q) (resources w)")
     (simp_all add: Let_def saveResourcesToDocument_def terminalTrace_emit commandErrors_def)

section \<open>Properties\<close>

text \<open>
  In what follows \<^verbatim>\<open>onmessage\<close> is the whole handler of a UI message (the document-change
  check, then the \<^verbatim>\<open>switch\<close>), and \<^verbatim>\<open>dispatch\<close> is the \<^verbatim>\<open>switch\<close> alone, that is, the
  \<^verbatim>\<open>case\<close> block of one command working on the collections as they are when it starts.
\<close>

text \<open>
  C1. Memory and storage agree after any sequence of commands in which every save call
  succeeds: if both in-memory collections equal what the stored blobs decode to when the
  sequence starts (as they do after a start-up that loaded without error), then they do so
  again when it ends. Every handler changes the in-memory list first and then writes the
  whole list; a handler that calls no save (an edit with an unknown id, a query) changes
  neither, whatever the host would have done with a write.
\<close>

theorem sync_after_commands:
  "in_sync w \<Longrightarrow> saves_succeed cmds w \<Longrightarrow> in_sync (run cmds w)"
proof (induction cmds arbitrary: w)
  case Nil
  then show ?case by simp
next
  case (Cons c cmds)
  obtain e msg where c: "c = (e, msg)" by (cases c)
  with Cons.prems have "in_sync (onmessage e msg w)" by (simp add: onmessage_in_sync')
  with Cons c show ?case by simp
qed

theorem sync_after_commands_witness:
  "in_sync example_world \<and>
   saves_succeed ((failing_env, EditDecision example_decision) # example_commands) example_world \<and>
   in_sync (run ((failing_env, EditDecision example_decision) # example_commands) example_world)"
proof -
  have a: "in_sync example_world"
    by (simp add: in_sync_def example_world_def example_host_def storedDecisions_def
        storedResources_def getSharedPluginData_def)
  have "decisions (checkForDocumentChange example_world) = []"
    using checkForDocumentChange_collections[OF a] by (simp add: example_world_def)
  then have n: "\<not> attempts_save (EditDecision example_decision) (checkForDocumentChange example_world)"
    by simp
  have "list_all (\<lambda>(e, msg). write_ok e) example_commands"
    by (simp add: example_commands_def example_env_def)
  then have "saves_succeed example_commands
      (onmessage failing_env (EditDecision example_decision) example_world)"
    by (rule saves_succeed_all_ok)
  with n have b: "saves_succeed ((failing_env, EditDecision example_decision) # example_commands)
      example_world"
    by simp
  show ?thesis using a b sync_after_commands[OF a b] by simp
qed

text \<open>
  C2. The claim is that sequential creates get pairwise distinct ids. The id is the
  clock reading \<^verbatim>\<open>Date.now().toString()\<close> and nothing else: two \<^verbatim>\<open>create-decision\<close>
  commands handled at the same clock reading append two decisions with the same id,
  whatever the collection held before.
\<close>

theorem same_clock_same_id:
  assumes "in_sync w" and "write_ok e"
  shows "map d_id (decisions (run [(e, CreateDecision a), (e, CreateDecision b)] w)) =
         map d_id (decisions w) @ [number_toString (now1 e), number_toString (now1 e)]"
proof -
  let ?w1 = "onmessage e (CreateDecision a) w"
  have s1: "in_sync ?w1" using assms by (rule onmessage_in_sync)
  show ?thesis
    by (simp add: create_appends[OF s1] create_appends[OF assms(1)] newDecision_id
          del: dispatch.simps)
qed

text \<open>
  In an empty document, with every write succeeding, two creates within the millisecond
  \<open>1700000000000\<close> give the id \<open>1700000000000\<close> twice.
\<close>

theorem rapid_creates_share_id:
  "map d_id (decisions (run [(example_env, CreateDecision example_draft),
                             (example_env, CreateDecision example_draft)] example_world)) =
   [''1700000000000'', ''1700000000000'']"
proof -
  have a: "in_sync example_world"
    by (simp add: in_sync_def example_world_def example_host_def storedDecisions_def
        storedResources_def getSharedPluginData_def)
  have b: "write_ok example_env" by (simp add: example_env_def)
  have c: "decisions example_world = []" by (simp add: example_world_def)
  have d: "now1 example_env = 1700000000000" by (simp add: example_env_def)
  show ?thesis
    unfolding same_clock_same_id[OF a b] c d number_toString_example by simp
qed

text \<open>
  C3 (as amended). An edit keeps id and author. Let memory and storage agree when the
  command arrives, and let \<open>d\<close> be the stored decision that the handler's lookup finds for
  the payload \<open>p\<close>: the first one with \<open>p\<close>'s id, which is the only one when ids are unique
  (\<open>findIndex_unique\<close>). After the command the record at that place is \<open>p\<close> with the
  timestamp set to the clock reading of the edit and the author taken from \<open>d\<close>, whatever
  author \<open>p\<close> carries; its id is that of \<open>d\<close>; no other place changes; and when the write
  succeeds the stored blob decodes to exactly this collection.
\<close>

theorem edit_keeps_id_and_author:
  assumes "in_sync w"
    and "findIndex (\<lambda>x. d_id x = d_id p) (decisions w) = Some i"
    and "d = decisions w ! i"
  shows "d_id p = d_id d \<and>
         decisions (onmessage e (EditDecision p) w) =
           (decisions w)[i := p\<lparr>d_timestamp := now1 e, d_author := d_author d\<rparr>] \<and>
         d_id (decisions (onmessage e (EditDecision p) w) ! i) = d_id d \<and>
         d_author (decisions (onmessage e (EditDecision p) w) ! i) = d_author d \<and>
         d_timestamp (decisions (onmessage e (EditDecision p) w) ! i) = now1 e \<and>
         (write_ok e \<longrightarrow>
            storedDecisions (figma (onmessage e (EditDecision p) w)) =
              Some ((decisions w)[i := p\<lparr>d_timestamp := now1 e, d_author := d_author d\<rparr>]))"
proof -
  from findIndex_Some[OF assms(2)] assms(3) have i: "i < length (decisions w)" "d_id d = d_id p"
    by simp_all
  have upd: "decisions (onmessage e (EditDecision p) w) =
      (decisions w)[i := p\<lparr>d_timestamp := now1 e, d_author := d_author d\<rparr>]"
    using onmessage_edit_found(1)[OF assms(1,2)] assms(3) by simp
  have st: "storedDecisions (figma (onmessage e (EditDecision p) w)) =
              Some (decisions (onmessage e (EditDecision p) w))" if "write_ok e"
    using onmessage_in_sync[OF assms(1) that, of "EditDecision p"] by (simp add: in_sync_def)
  show ?thesis using st unfolding upd using i by simp
qed

theorem edit_keeps_id_and_author_witness:
  "in_sync saved_world \<and>
   findIndex (\<lambda>x. d_id x = d_id (example_decision\<lparr>d_author := ''Mallory'', d_status := Accepted\<rparr>))
      (decisions saved_world) = Some 0 \<and>
   decisions (onmessage example_env
      (EditDecision (example_decision\<lparr>d_author := ''Mallory'', d_status := Accepted\<rparr>))
      saved_world) =
     [example_decision\<lparr>d_timestamp := 1700000000000, d_status := Accepted\<rparr>] \<and>
   storedDecisions (figma (onmessage example_env
      (EditDecision (example_decision\<lparr>d_author := ''Mallory'', d_status := Accepted\<rparr>))
      saved_world)) =
     Some [example_decision\<lparr>d_timestamp := 1700000000000, d_status := Accepted\<rparr>]"
proof -
  have f: "findIndex (\<lambda>x. d_id x = d_id (example_decision\<lparr>d_author := ''Mallory'', d_status := Accepted\<rparr>))
      (decisions saved_world) = Some 0"
    by (simp add: saved_world_decisions)
  have u: "(example_decision\<lparr>d_author := ''Mallory'', d_status := Accepted\<rparr>)
             \<lparr>d_timestamp := 1700000000000, d_author := d_author example_decision\<rparr> =
           example_decision\<lparr>d_timestamp := 1700000000000, d_status := Accepted\<rparr>"
    by (simp add: example_decision_def)
  show ?thesis
    using saved_world_in_sync f
      edit_keeps_id_and_author[OF saved_world_in_sync f refl, of example_env]
    by (simp add: saved_world_decisions example_env_def u del: dispatch.simps)
qed

text \<open>
  C3 as first stated, for every stored decision with the payload's id, fails in two
  ways. Of two decisions sharing an id the edit replaces the first and keeps the first
  one's author, so for the second one, by Bob, the record written carries the author Ada.
  And after a switch to another document the collection is reloaded before the lookup:
  the decision that was in memory is gone and nothing is edited; the parenthesised check
  does the same.
\<close>

theorem edit_takes_first_match_or_nothing:
  "other_decision \<in> set (decisions duplicate_world) \<and>
   d_id (other_decision\<lparr>d_author := ''Mallory''\<rparr>) = d_id other_decision \<and>
   d_author other_decision = ''Bob'' \<and>
   decisions (onmessage example_env (EditDecision (other_decision\<lparr>d_author := ''Mallory''\<rparr>))
      duplicate_world) =
     [other_decision\<lparr>d_timestamp := 1700000000000, d_author := ''Ada''\<rparr>, other_decision] \<and>
   example_decision \<in> set (decisions switched_world) \<and>
   decisions (onmessage example_env (EditDecision (example_decision\<lparr>d_status := Accepted\<rparr>))
      switched_world) = [] \<and>
   decisions (dispatch example_env (EditDecision (example_decision\<lparr>d_status := Accepted\<rparr>))
      (checkForDocumentChange_parenthesised switched_world)) = []"
proof -
  have f: "findIndex (\<lambda>x. d_id x = d_id (other_decision\<lparr>d_author := ''Mallory''\<rparr>))
      (decisions duplicate_world) = Some 0"
    by (simp add: duplicate_world_decisions other_decision_def example_decision_def)
  have a: "decisions (onmessage example_env (EditDecision (other_decision\<lparr>d_author := ''Mallory''\<rparr>))
      duplicate_world) =
     [other_decision\<lparr>d_timestamp := 1700000000000, d_author := ''Ada''\<rparr>, other_decision]"
    using onmessage_edit_found(1)[OF duplicate_world_in_sync f, of example_env]
    by (simp add: duplicate_world_decisions example_env_def other_decision_def example_decision_def)
  have b: "decisions (onmessage example_env (EditDecision (example_decision\<lparr>d_status := Accepted\<rparr>))
      switched_world) = []"
    using switched_world_reload by (simp add: onmessage_def)
  have c: "decisions (dispatch example_env (EditDecision (example_decision\<lparr>d_status := Accepted\<rparr>))
      (checkForDocumentChange_parenthesised switched_world)) = []"
    using switched_world_reload by simp
  show ?thesis
    by (simp add: a b c duplicate_world_decisions del: dispatch.simps)
       (simp add: other_decision_def switched_world_def)
qed

text \<open>
  C4. The claim is that the check reloads exactly when the cached document identity
  differs from the live one. In \<^verbatim>\<open>checkForDocumentChange\<close> the condition lacks the
  parentheses of the earlier revision, so it holds whenever \<^verbatim>\<open>figma.root.id\<close> is a
  non-empty string: every UI message and every selection change then runs
  \<^verbatim>\<open>initializePlugin\<close>, whether or not the document changed.
\<close>

theorem reload_on_every_event:
  "root_id (figma w) \<noteq> [] \<Longrightarrow>
     checkForDocumentChange w = initializePlugin w \<and>
     on_ui_message w = initializePlugin w \<and>
     on_selectionchange w = sendSelectionInfo (initializePlugin w)"
  by (simp add: checkForDocumentChange_def on_ui_message_def on_selectionchange_def)

text \<open>
  Evaluated on a document that did not change, with one unsaved decision in memory:
  cached and live identity are equal, yet the check runs \<^verbatim>\<open>initializePlugin\<close> and the
  unsaved decision is gone, on a selection change as well as on a UI message. The
  parenthesised check leaves the collection alone.
\<close>

theorem reload_without_document_change:
  "currentDocumentId unsaved_world = documentIdentity (figma unsaved_world) \<and>
   length (decisions unsaved_world) = 1 \<and>
   checkForDocumentChange unsaved_world = initializePlugin unsaved_world \<and>
   decisions (on_selectionchange unsaved_world) = [] \<and>
   decisions (on_ui_message unsaved_world) = [] \<and>
   decisions (checkForDocumentChange_parenthesised unsaved_world) = decisions unsaved_world"
proof -
  have f: "figma unsaved_world = example_host"
    by (simp add: unsaved_world_def saveDecisionsToDocument_def Let_def example_env_def
          example_world_def)
  have c: "currentDocumentId unsaved_world = ''abc''"
    by (simp add: unsaved_world_def saveDecisionsToDocument_def Let_def example_env_def
          example_world_def)
  have i: "documentIdentity example_host = ''abc''"
    by (simp add: documentIdentity_def example_host_def)
  have l: "length (decisions unsaved_world) = 1"
    by (simp add: unsaved_world_def saveDecisionsToDocument_def Let_def example_env_def
          example_world_def)
  have "root_id (figma unsaved_world) \<noteq> []" by (simp add: f example_host_def)
  from reload_on_every_event[OF this]
  have r: "checkForDocumentChange unsaved_world = initializePlugin unsaved_world" by simp
  have sd: "storedDecisions (figma unsaved_world) = Some []"
    by (simp add: f storedDecisions_def getSharedPluginData_def example_host_def)
  have sr: "storedResources (figma unsaved_world) = Some []"
    by (simp add: f storedResources_def getSharedPluginData_def example_host_def)
  have d: "decisions (initializePlugin unsaved_world) = []"
    using initializePlugin_stored[OF sd sr] by simp
  show ?thesis
    by (simp add: f c i l r d on_selectionchange_def on_ui_message_def
          checkForDocumentChange_parenthesised_same)
qed

text \<open>
  C5 (as amended). On a document whose stored blobs are empty or decode to lists of
  records, every create and every delete command, for decisions and for resources, emits
  exactly one terminal event: the event carrying the created record or the deleted id when
  the save succeeded, and otherwise the error notification of that command. So does every
  edit command whose id is the id of a record in the collection as the \<^verbatim>\<open>switch\<close> finds
  it, with the updated record; an edit command whose id matches no record emits no
  terminal event.
\<close>

theorem terminal_events_of_commands:
  assumes "loadable (figma w)"
  shows
  "terminalTrace (onmessage e (CreateDecision c) w) =
     terminalTrace w @ [if write_ok e then PostMessage (DecisionCreated (newDecision (figma w) e c))
                        else Notify ''Error saving decision''] \<and>
   terminalTrace (onmessage e (CreateResource rc) w) =
     terminalTrace w @ [if write_ok e then PostMessage (ResourceCreated (newResource (figma w) e rc))
                        else Notify ''Error saving resource''] \<and>
   terminalTrace (onmessage e (DeleteDecision i) w) =
     terminalTrace w @ [if write_ok e then PostMessage (DecisionDeleted i)
                        else Notify ''Error deleting decision''] \<and>
   terminalTrace (onmessage e (DeleteResource i) w) =
     terminalTrace w @ [if write_ok e then PostMessage (ResourceDeleted i)
                        else Notify ''Error deleting resource''] \<and>
   terminalTrace (onmessage e (EditDecision p) w) =
     terminalTrace w @
       (case findIndex (\<lambda>d. d_id d = d_id p) (decisions (checkForDocumentChange w)) of
          None \<Rightarrow> []
        | Some k \<Rightarrow>
            [if write_ok e
             then PostMessage (DecisionUpdated
                    (editedDecision e p (decisions (checkForDocumentChange w) ! k)))
             else Notify ''Error updating decision'']) \<and>
   terminalTrace (onmessage e (EditResource q) w) =
     terminalTrace w @
       (case findIndex (\<lambda>r. r_id r = r_id q) (resources (checkForDocumentChange w)) of
          None \<Rightarrow> []
        | Some k \<Rightarrow>
            [if write_ok e
             then PostMessage (ResourceUpdated
                    (editedResource e q (resources (checkForDocumentChange w) ! k)))
             else Notify ''Error updating resource''])"
  by (simp add: onmessage_def dispatch_terminalTrace_create_delete
        dispatch_terminalTrace_edit_decision dispatch_terminalTrace_edit_resource
        del: dispatch.simps)

theorem terminal_events_of_commands_witness:
  "loadable (figma saved_world) \<and>
   terminalTrace (onmessage example_env (DeleteDecision ''1'') saved_world) =
     [PostMessage (DecisionDeleted ''1'')] \<and>
   terminalTrace (onmessage failing_env (DeleteDecision ''1'') saved_world) =
     [Notify ''Error deleting decision''] \<and>
   terminalTrace (onmessage example_env (EditDecision (example_decision\<lparr>d_status := Accepted\<rparr>))
      saved_world) =
     [PostMessage (DecisionUpdated
        (example_decision\<lparr>d_timestamp := 1700000000000, d_status := Accepted\<rparr>))]"
proof -
  have l: "loadable (figma saved_world)"
    using saved_world_in_sync by (simp add: loadable_def in_sync_def)
  have t: "terminalTrace saved_world = []"
    by (simp add: terminalTrace_def saved_world_def saveDecisionsToDocument_def example_env_def
          example_world_def)
  have d: "decisions (checkForDocumentChange saved_world) = [example_decision]"
    using checkForDocumentChange_collections[OF saved_world_in_sync]
    by (simp add: saved_world_decisions)
  have f: "findIndex (\<lambda>d. d_id d = d_id (example_decision\<lparr>d_status := Accepted\<rparr>))
      [example_decision] = Some 0"
    by simp
  show ?thesis
    using l
      terminal_events_of_commands[OF l, of example_env example_draft _ "''1''"
        "example_decision\<lparr>d_status := Accepted\<rparr>"]
      terminal_events_of_commands[OF l, of failing_env example_draft _ "''1''"
        "example_decision\<lparr>d_status := Accepted\<rparr>"]
    by (simp add: t d f editedDecision_def example_env_def failing_env_def example_decision_def
          del: dispatch.simps)
qed

text \<open>
  C5 as first stated, one terminal event for every command, fails for an
  \<^verbatim>\<open>edit-decision\<close> whose id is unknown: with the decision of id \<open>1\<close> stored and a payload
  of id \<open>2\<close>, no terminal event is emitted.
\<close>

theorem edit_unknown_id_emits_nothing:
  "terminalEvents (onmessage example_env (EditDecision (example_decision\<lparr>d_id := ''2''\<rparr>))
      saved_world) = terminalEvents saved_world"
  using checkForDocumentChange_collections[OF saved_world_in_sync]
  by (simp add: onmessage_def dispatch_terminal_edit_decision saved_world_decisions
        example_decision_def del: dispatch.simps)

text \<open>
  C6 (as amended). When memory and storage agree, an \<^verbatim>\<open>edit-decision\<close> whose id matches
  no decision of the collection is a silent no-op: the command does what the
  document-change check does and nothing more, the in-memory collections after it are
  those before it, the host with its stored blobs is untouched (nothing is saved, no entry
  is added) and no terminal event is emitted.
\<close>

theorem edit_unknown_id_is_noop:
  assumes "in_sync w" and "d_id p \<notin> d_id ` set (decisions w)"
  shows "onmessage e (EditDecision p) w = checkForDocumentChange w \<and>
         decisions (onmessage e (EditDecision p) w) = decisions w \<and>
         resources (onmessage e (EditDecision p) w) = resources w \<and>
         figma (onmessage e (EditDecision p) w) = figma w \<and>
         terminalTrace (onmessage e (EditDecision p) w) = terminalTrace w"
  using onmessage_edit_missing[OF assms] checkForDocumentChange_collections[OF assms(1)]
  by simp

theorem edit_unknown_id_is_noop_witness:
  "in_sync saved_world \<and>
   d_id (example_decision\<lparr>d_id := ''2''\<rparr>) \<notin> d_id ` set (decisions saved_world) \<and>
   decisions (onmessage failing_env (EditDecision (example_decision\<lparr>d_id := ''2''\<rparr>)) saved_world) =
     [example_decision] \<and>
   figma (onmessage failing_env (EditDecision (example_decision\<lparr>d_id := ''2''\<rparr>)) saved_world) =
     figma saved_world"
proof -
  have n: "d_id (example_decision\<lparr>d_id := ''2''\<rparr>) \<notin> d_id ` set (decisions saved_world)"
    by (simp add: saved_world_decisions example_decision_def)
  from edit_unknown_id_is_noop[OF saved_world_in_sync n, of failing_env]
  have d: "decisions (onmessage failing_env (EditDecision (example_decision\<lparr>d_id := ''2''\<rparr>))
             saved_world) = decisions saved_world"
    and f: "figma (onmessage failing_env (EditDecision (example_decision\<lparr>d_id := ''2''\<rparr>))
             saved_world) = figma saved_world"
    by blast+
  show ?thesis
    using saved_world_in_sync n by (simp only: d f saved_world_decisions) simp
qed

text \<open>
  C6 as first stated, for every state, fails after a switch to another document: the
  collection is reloaded before the \<^verbatim>\<open>switch\<close>, so the decision in memory is gone after a
  command whose id matched nothing; the parenthesised check does the same.
\<close>

theorem edit_unknown_id_after_document_switch:
  "d_id (example_decision\<lparr>d_id := ''2''\<rparr>) \<notin> d_id ` set (decisions switched_world) \<and>
   decisions switched_world = [example_decision] \<and>
   decisions (onmessage example_env (EditDecision (example_decision\<lparr>d_id := ''2''\<rparr>))
      switched_world) = [] \<and>
   decisions (dispatch example_env (EditDecision (example_decision\<lparr>d_id := ''2''\<rparr>))
      (checkForDocumentChange_parenthesised switched_world)) = []"
proof -
  have b: "decisions (onmessage example_env (EditDecision (example_decision\<lparr>d_id := ''2''\<rparr>))
      switched_world) = []"
    using switched_world_reload by (simp add: onmessage_def)
  have c: "decisions (dispatch example_env (EditDecision (example_decision\<lparr>d_id := ''2''\<rparr>))
      (checkForDocumentChange_parenthesised switched_world)) = []"
    using switched_world_reload by simp
  show ?thesis
    by (simp add: b c del: dispatch.simps) (simp add: switched_world_def example_decision_def)
qed

text \<open>
  C7 (as amended). When memory and storage agree, a \<^verbatim>\<open>delete-decision\<close> whose id
  matches no decision of the collection leaves the in-memory collection as it was, the
  same records in the same order, and the stored blob still decodes to that collection,
  whether the write succeeds or not.
\<close>

theorem delete_unknown_id_keeps_collection:
  assumes "in_sync w" and "i \<notin> d_id ` set (decisions w)"
  shows "decisions (onmessage e (DeleteDecision i) w) = decisions w \<and>
         resources (onmessage e (DeleteDecision i) w) = resources w \<and>
         storedDecisions (figma (onmessage e (DeleteDecision i) w)) = Some (decisions w)"
proof -
  from assms(2) have fl: "filter (\<lambda>d. d_id d \<noteq> i) (decisions w) = decisions w"
    by (auto simp: filter_id_conv)
  have d: "decisions (onmessage e (DeleteDecision i) w) = decisions w"
    using onmessage_delete(1)[OF assms(1), of e i] fl by simp
  have r: "resources (onmessage e (DeleteDecision i) w) = resources w"
    by (rule onmessage_delete(2)[OF assms(1)])
  have s: "storedDecisions (figma (onmessage e (DeleteDecision i) w)) = Some (decisions w)"
  proof (cases "write_ok e")
    case True
    from onmessage_in_sync[OF assms(1) True, of "DeleteDecision i"] d
    show ?thesis by (simp add: in_sync_def)
  next
    case False
    then have "figma (onmessage e (DeleteDecision i) w) = figma w"
      by (simp add: onmessage_def saveDecisionsToDocument_def Let_def)
    with assms(1) show ?thesis by (simp add: in_sync_def)
  qed
  show ?thesis using d r s by simp
qed

theorem delete_unknown_id_keeps_collection_witness:
  "in_sync saved_world \<and> ''2'' \<notin> d_id ` set (decisions saved_world) \<and>
   decisions (onmessage example_env (DeleteDecision ''2'') saved_world) = [example_decision] \<and>
   storedDecisions (figma (onmessage example_env (DeleteDecision ''2'') saved_world)) =
     Some [example_decision]"
proof -
  have n: "''2'' \<notin> d_id ` set (decisions saved_world)"
    by (simp add: saved_world_decisions example_decision_def)
  show ?thesis
    using saved_world_in_sync n
      delete_unknown_id_keeps_collection[OF saved_world_in_sync n, of example_env]
    by (simp add: saved_world_decisions del: dispatch.simps)
qed

text \<open>
  C7 as first stated, for every state, fails after a switch to another document: the
  collection is reloaded before the \<^verbatim>\<open>switch\<close>, so a delete with an unknown id leaves the
  empty collection where the example decision was; the parenthesised check does the same.
\<close>

theorem delete_unknown_id_after_document_switch:
  "''2'' \<notin> d_id ` set (decisions switched_world) \<and>
   decisions switched_world = [example_decision] \<and>
   decisions (onmessage example_env (DeleteDecision ''2'') switched_world) = [] \<and>
   decisions (dispatch example_env (DeleteDecision ''2'')
      (checkForDocumentChange_parenthesised switched_world)) = []"
proof -
  have b: "decisions (onmessage example_env (DeleteDecision ''2'') switched_world) = []"
    using switched_world_reload
    by (simp add: onmessage_def saveDecisionsToDocument_def Let_def)
  have c: "decisions (dispatch example_env (DeleteDecision ''2'')
      (checkForDocumentChange_parenthesised switched_world)) = []"
    using switched_world_reload by (simp add: saveDecisionsToDocument_def Let_def)
  show ?thesis
    by (simp add: b c del: dispatch.simps) (simp add: switched_world_def example_decision_def)
qed



text \<open>
  C9. The row made for a decision shows context and rationale in full when they have at
  most 100 characters, and otherwise their first 100 characters followed by \<open>...\<close>; the
  status cell has the colour of the fixed mapping: proposed blue, accepted green, rejected
  red, deprecated brown, superseded purple.
\<close>

theorem row_cells:
  assumes "createDecisionRow h d = Some r"
  shows "cell_text (row_cells r ! 2) =
           (if length (d_context d) \<le> 100 then d_context d else take 100 (d_context d) @ ''...'') \<and>
         cell_text (row_cells r ! 3) =
           (if length (d_rationale d) \<le> 100 then d_rationale d
            else take 100 (d_rationale d) @ ''...'') \<and>
         cell_color (row_cells r ! 1) =
           (case d_status d of Proposed \<Rightarrow> Blue | Accepted \<Rightarrow> Green | Rejected \<Rightarrow> Red
            | Deprecated \<Rightarrow> Brown | Superseded \<Rightarrow> Purple) \<and>
         length (row_cells r) = 7"
proof -
  from assms have r: "row_cells r ! 2 = \<lparr>cell_text = truncated (d_context d), cell_width = 250,
        cell_weight = Regular, cell_color = DefaultText\<rparr>"
      "row_cells r ! 3 = \<lparr>cell_text = truncated (d_rationale d), cell_width = 250,
        cell_weight = Regular, cell_color = DefaultText\<rparr>"
      "cell_color (row_cells r ! 1) = statusColors (d_status d)"
      "length (row_cells r) = 7"
    by (auto simp: createDecisionRow_def split: if_splits)
  show ?thesis unfolding r
    by (simp add: truncated_def statusColors_def)
qed

theorem row_cells_witness:
  "createDecisionRow example_host (example_decision\<lparr>d_context := long_text, d_status := Rejected\<rparr>) \<noteq> None \<and>
   cell_text (row_cells (the (createDecisionRow example_host
       (example_decision\<lparr>d_context := long_text, d_status := Rejected\<rparr>))) ! 2) =
     replicate 100 (CHR ''x'') @ ''...'' \<and>
   cell_text (row_cells (the (createDecisionRow example_host
       (example_decision\<lparr>d_context := long_text, d_status := Rejected\<rparr>))) ! 3) = ''Accessibility'' \<and>
   cell_color (row_cells (the (createDecisionRow example_host
       (example_decision\<lparr>d_context := long_text, d_status := Rejected\<rparr>))) ! 1) = Red"
proof -
  let ?d = "example_decision\<lparr>d_context := long_text, d_status := Rejected\<rparr>"
  obtain r where r: "createDecisionRow example_host ?d = Some r"
    by (simp add: createDecisionRow_def example_host_def)
  show ?thesis using row_cells[OF r] r
    by (simp add: long_text_def example_decision_def)
qed

text \<open>
  C10. A delete removes every record with the given id, not only the first: what
  remains is the collection filtered by id, so no record with that id is left, for
  decisions and for resources alike.
\<close>

theorem delete_removes_every_match:
  "decisions (dispatch e (DeleteDecision i) w) = filter (\<lambda>d. d_id d \<noteq> i) (decisions w) \<and>
   i \<notin> d_id ` set (decisions (dispatch e (DeleteDecision i) w)) \<and>
   resources (dispatch e (DeleteResource i) w) = filter (\<lambda>r. r_id r \<noteq> i) (resources w) \<and>
   i \<notin> r_id ` set (resources (dispatch e (DeleteResource i) w))"
proof -
  have d: "decisions (dispatch e (DeleteDecision i) w) = filter (\<lambda>d. d_id d \<noteq> i) (decisions w)"
    by (simp add: saveDecisionsToDocument_def Let_def)
  have r: "resources (dispatch e (DeleteResource i) w) = filter (\<lambda>r. r_id r \<noteq> i) (resources w)"
    by (simp add: saveResourcesToDocument_def Let_def)
  show ?thesis unfolding d r by auto
qed

text \<open>Two decisions sharing the id \<open>1\<close> go with one command.\<close>

theorem delete_removes_every_match_witness:
  "decisions (dispatch example_env (DeleteDecision ''1'')
     (example_world\<lparr>decisions :=
        [example_decision, example_decision\<lparr>d_id := ''2''\<rparr>, example_decision\<lparr>d_title := ''Other''\<rparr>]\<rparr>))
   = [example_decision\<lparr>d_id := ''2''\<rparr>]"
  using delete_removes_every_match[of example_env "''1''"
    "example_world\<lparr>decisions :=
        [example_decision, example_decision\<lparr>d_id := ''2''\<rparr>, example_decision\<lparr>d_title := ''Other''\<rparr>]\<rparr>"]
  by (simp add: example_decision_def example_world_def del: dispatch.simps)

end
